theory Spec2Isabelle
  imports Complex_Main "HOL-Library.Sublist"
begin

section \<open>Python text primitives used by the wrappers\<close>

text \<open>
  Text is a list of code points below 256, one \<^typ>\<open>char\<close> each. The functions below are
  the built-in \<^verbatim>\<open>str\<close> methods that the package calls, restricted to that range.
\<close>

definition is_space :: "char \<Rightarrow> bool" where
  \<comment> \<open>\<^verbatim>\<open>str.isspace\<close> for one code point: TAB, LF, VT, FF, CR, FS, GS, RS, US, space, NEL, NBSP.\<close>
  "is_space c =
     (let n = (of_char c :: nat)
      in (9 \<le> n \<and> n \<le> 13) \<or> (28 \<le> n \<and> n \<le> 32) \<or> n = 133 \<or> n = 160)"

definition is_linebreak :: "char \<Rightarrow> bool" where
  \<comment> \<open>the line boundaries of \<^verbatim>\<open>str.splitlines\<close>: LF, VT, FF, CR, FS, GS, RS, NEL.\<close>
  "is_linebreak c =
     (let n = (of_char c :: nat)
      in (10 \<le> n \<and> n \<le> 13) \<or> (28 \<le> n \<and> n \<le> 30) \<or> n = 133)"

definition is_digit :: "char \<Rightarrow> bool" where
  "is_digit c = (let n = (of_char c :: nat) in 48 \<le> n \<and> n \<le> 57)"

definition digit_val :: "char \<Rightarrow> nat" where
  "digit_val c = of_char c - 48"

definition lower_char :: "char \<Rightarrow> char" where
  "lower_char c =
     (let n = (of_char c :: nat)
      in if (65 \<le> n \<and> n \<le> 90) \<or> (192 \<le> n \<and> n \<le> 222 \<and> n \<noteq> 215)
         then char_of (n + 32) else c)"

definition str_lower :: "string \<Rightarrow> string" where
  "str_lower s = map lower_char s"

definition str_strip :: "string \<Rightarrow> string" where
  "str_strip s = rev (dropWhile is_space (rev (dropWhile is_space s)))"

definition lstrip_chars :: "string \<Rightarrow> string \<Rightarrow> string" where
  \<comment> \<open>\<^verbatim>\<open>s.lstrip(chars)\<close>\<close>
  "lstrip_chars s chars = dropWhile (\<lambda>c. c \<in> set chars) s"

definition str_startswith :: "string \<Rightarrow> string \<Rightarrow> bool" where
  "str_startswith s p = (take (length p) s = p)"

fun split_from :: "string \<Rightarrow> string \<Rightarrow> string list" where
  \<comment> \<open>the word being read so far, then the rest of the text\<close>
  "split_from cur [] = (if cur = [] then [] else [cur])"
| "split_from cur (c # cs) =
     (if is_space c then (if cur = [] then split_from [] cs else cur # split_from [] cs)
      else split_from (cur @ [c]) cs)"

definition str_split :: "string \<Rightarrow> string list" where
  \<comment> \<open>\<^verbatim>\<open>s.split()\<close> with no argument: the maximal runs of non-space characters.\<close>
  "str_split s = split_from [] s"

fun splitlines_from :: "string \<Rightarrow> string \<Rightarrow> string list" where
  "splitlines_from cur [] = (if cur = [] then [] else [cur])"
| "splitlines_from cur (c # cs) =
     (if c = CHR 0x0D then
        (case cs of
           [] \<Rightarrow> [cur]
         | d # ds \<Rightarrow> if d = CHR 0x0A then cur # splitlines_from [] ds
                    else cur # splitlines_from [] (d # ds))
      else if is_linebreak c then cur # splitlines_from [] cs
      else splitlines_from (cur @ [c]) cs)"

definition str_splitlines :: "string \<Rightarrow> string list" where
  \<comment> \<open>\<^verbatim>\<open>s.splitlines()\<close>: CR LF is one boundary; no empty last line.\<close>
  "str_splitlines s = splitlines_from [] s"

subsection \<open>\<^verbatim>\<open>int(str)\<close> and \<^verbatim>\<open>float(str)\<close>\<close>

text \<open>
  A digit part is a digit followed by digits, each optionally preceded by one underscore.
  \<^verbatim>\<open>scan_digits\<close> reads the longest digit part at the front of the text and returns its
  digits (underscores dropped) with the unread rest.
\<close>

fun scan_more :: "string \<Rightarrow> string \<times> string" where
  "scan_more [] = ([], [])"
| "scan_more (c # cs) =
     (if is_digit c then (case scan_more cs of (ds, r) \<Rightarrow> (c # ds, r))
      else if c = CHR ''_'' then
        (case cs of
           [] \<Rightarrow> ([], c # cs)
         | d # ds' \<Rightarrow> if is_digit d then (case scan_more ds' of (ds, r) \<Rightarrow> (d # ds, r))
                     else ([], c # cs))
      else ([], c # cs))"

definition scan_digits :: "string \<Rightarrow> string \<times> string" where
  "scan_digits s =
     (case s of
        [] \<Rightarrow> ([], [])
      | c # cs \<Rightarrow> if is_digit c then (case scan_more cs of (ds, r) \<Rightarrow> (c # ds, r)) else ([], s))"

definition digits_val :: "string \<Rightarrow> nat" where
  "digits_val ds = foldl (\<lambda>a c. 10 * a + digit_val c) 0 ds"

definition split_sign :: "string \<Rightarrow> bool \<times> string" where
  \<comment> \<open>an optional sign: (negative?, rest)\<close>
  "split_sign s =
     (case s of
        [] \<Rightarrow> (False, [])
      | c # cs \<Rightarrow> if c = CHR ''-'' then (True, cs) else if c = CHR ''+'' then (False, cs)
                 else (False, s))"

definition py_int :: "string \<Rightarrow> int option" where
  \<comment> \<open>\<^verbatim>\<open>int(s)\<close> in base 10; \<^verbatim>\<open>None\<close> stands for \<^verbatim>\<open>ValueError\<close>.\<close>
  "py_int s =
     (case split_sign (str_strip s) of (neg, t) \<Rightarrow>
        (case scan_digits t of (ds, r) \<Rightarrow>
           if ds = [] \<or> r \<noteq> [] then None
           else Some (if neg then - int (digits_val ds) else int (digits_val ds))))"

datatype pyfloat = Finite rat | PosInf | NegInf | NaN

text \<open>
  A finite literal denotes its exact decimal value; the rounding of that value to a binary
  double is not part of the model, nor is the interpreter's limit on the number of digits
  of an integer literal.
\<close>

definition pow10 :: "int \<Rightarrow> rat" where
  "pow10 e = (if 0 \<le> e then 10 ^ nat e else 1 / 10 ^ nat (- e))"

definition scan_exponent :: "string \<Rightarrow> (int \<times> string) option" where
  \<comment> \<open>an optional exponent part: its value and the unread rest; \<^verbatim>\<open>None\<close> when malformed.\<close>
  "scan_exponent s =
     (case s of
        [] \<Rightarrow> Some (0, [])
      | c # cs \<Rightarrow>
          if c = CHR ''e'' \<or> c = CHR ''E'' then
            (case split_sign cs of (neg, t) \<Rightarrow>
               (case scan_digits t of (ds, r) \<Rightarrow>
                  if ds = [] then None
                  else Some (if neg then - int (digits_val ds) else int (digits_val ds), r)))
          else Some (0, s))"

definition scan_number :: "string \<Rightarrow> rat option" where
  \<comment> \<open>an unsigned decimal literal that must use up the whole text\<close>
  "scan_number s =
     (case scan_digits s of (ip, r1) \<Rightarrow>
        (case (case r1 of
                 [] \<Rightarrow> ([], r1)
               | c # cs \<Rightarrow> if c = CHR ''.'' then scan_digits cs else ([], r1)) of (fp, r2) \<Rightarrow>
           if ip = [] \<and> fp = [] then None
           else
             (case scan_exponent r2 of
                None \<Rightarrow> None
              | Some (e, r3) \<Rightarrow>
                  if r3 \<noteq> [] then None
                  else Some (of_nat (digits_val (ip @ fp)) * pow10 (e - int (length fp))))))"

definition py_float :: "string \<Rightarrow> pyfloat option" where
  \<comment> \<open>\<^verbatim>\<open>float(s)\<close>; \<^verbatim>\<open>None\<close> stands for \<^verbatim>\<open>ValueError\<close>.\<close>
  "py_float s =
     (case split_sign (str_strip s) of (neg, t) \<Rightarrow>
        if str_lower t = ''inf'' \<or> str_lower t = ''infinity'' then Some (if neg then NegInf else PosInf)
        else if str_lower t = ''nan'' then Some NaN
        else
          (case scan_number t of
             None \<Rightarrow> None
           | Some q \<Rightarrow> Some (Finite (if neg then - q else q))))"

section \<open>Paths and the file system\<close>

text \<open>
  A path is the list of its components below the root, already absolute and free of symbolic
  links, so that \<^verbatim>\<open>Path.resolve()\<close> returns its argument; the call is still recorded as an
  access to the file system. \<^verbatim>\<open>suffix\<close> and \<^verbatim>\<open>stem\<close> follow \<^verbatim>\<open>pathlib.PurePath\<close>.
\<close>

type_synonym path = "string list"

definition path_name :: "path \<Rightarrow> string" where
  "path_name p = (if p = [] then [] else last p)"

definition rfind_dot :: "string \<Rightarrow> nat option" where
  \<comment> \<open>\<^verbatim>\<open>name.rfind('.')\<close>, with \<^verbatim>\<open>None\<close> for -1\<close>
  "rfind_dot name =
     (if CHR ''.'' \<in> set name
      then Some (length name - 1 - length (takeWhile (\<lambda>c. c \<noteq> CHR ''.'') (rev name)))
      else None)"

definition name_suffix :: "string \<Rightarrow> string" where
  "name_suffix name =
     (case rfind_dot name of
        None \<Rightarrow> []
      | Some i \<Rightarrow> if 0 < i \<and> i < length name - 1 then drop i name else [])"

definition name_stem :: "string \<Rightarrow> string" where
  "name_stem name =
     (case rfind_dot name of
        None \<Rightarrow> name
      | Some i \<Rightarrow> if 0 < i \<and> i < length name - 1 then take i name else name)"

definition path_suffix :: "path \<Rightarrow> string" where
  "path_suffix p = name_suffix (path_name p)"

definition path_stem :: "path \<Rightarrow> string" where
  "path_stem p = name_stem (path_name p)"

definition path_parent :: "path \<Rightarrow> path" where
  "path_parent p = butlast p"

datatype node = File string | Dir

type_synonym filesystem = "path \<Rightarrow> node option"

section \<open>Values, commands, exceptions\<close>

datatype pyval =
  PyNone | PyBool bool | PyInt int | PyFloat pyfloat | PyStr string
  | PyTuple "pyval list" | PyList "pyval list"

text \<open>
  An argument of a command line: a literal, \<^verbatim>\<open>str(path)\<close> or \<^verbatim>\<open>str(value)\<close>. The text that
  \<^verbatim>\<open>str\<close> produces is not needed by any property below and is left symbolic.
\<close>

datatype arg = Lit string | PathArg path | ValArg pyval

datatype exc_class =
  FileNotFoundError | ValueError | TypeError | RuntimeError | IndexError
  | CalledProcessError | OSError

datatype cause =
    CouldNotConvert string        \<comment> \<open>\<^verbatim>\<open>float\<close> rejected the text\<close>
  | NoneHasNoStrip                \<comment> \<open>\<^verbatim>\<open>None.strip()\<close>\<close>

datatype message =
    NoVinaOutput                  \<comment> \<open>"No Vina output to parse. Please run docking first."\<close>
  | NoDockingResults              \<comment> \<open>"No docking results found in Vina output."\<close>
  | VinaFailed string             \<comment> \<open>"AutoDock Vina failed:" and the captured stream\<close>
  | CenterNot3Tuple               \<comment> \<open>"'center' must be a 3-tuple of floats."\<close>
  | SizeNot3Tuple                 \<comment> \<open>"'size' must be a 3-tuple of floats."\<close>
  | GridValuesNotNumeric          \<comment> \<open>"Grid center and size values must be float or int."\<close>
  | ReceptorNotFound path
  | LigandFileNotFound path
  | DockingResultsMissing         \<comment> \<open>"Docking results are missing. Please run docking ..."\<close>
  | PdbNotFound path
  | OnlyPdbSupported              \<comment> \<open>"Unsupported file format. Only '.pdb' is supported."\<close>
  | P2RankFailed string
  | PredictionCsvNotFound path
  | ErrorParsingRow nat cause     \<comment> \<open>"Error parsing coordinates at row \{idx\}: \{e\}"\<close>
  | FailedToReadCsv message       \<comment> \<open>"Failed to read prediction CSV: \{e\}"\<close>
  | NoPocketCenters path
  | OutputFolderNotFound path
  | ProteinNotFound path
  | LigandNotFound path
  | UnsupportedFormat string
  | ProteinNotPrepared            \<comment> \<open>"Protein not prepared. Run prepare() first."\<close>
  | UnsupportedForcefield string
  | MGLToolsFailed                \<comment> \<open>"MGLTools ligand preparation failed."\<close>
  | ProcessFailed "arg list" int  \<comment> \<open>\<^verbatim>\<open>check=True\<close> and a non-zero exit status\<close>
  | LibraryFailure                \<comment> \<open>raised inside a library call\<close>

datatype exc = Exc exc_class message

section \<open>The world: files, and the record of what was done to them\<close>

datatype event =
    Resolve path | IsFile path | Exists path | IsDir path | Mkdir path
  | ReadFile path | WriteFile path
  | Run "arg list" "path option"
  | Fixer path bool "pyval option"
  | CopyFile path path | RmTree path | CopyTree path path

record world =
  files :: filesystem
  trace :: "event list"

record proc =
  returncode :: int
  stdout :: string
  stderr :: string
  files_after :: filesystem

text \<open>
  What lies outside the package: its installation directory, the operating system's process
  launcher (the external binaries and scripts), the structure-fixing library, the CSV
  tokenizer of the standard library, and the text that \<^verbatim>\<open>DataFrame.to_csv\<close> writes.
\<close>

record env =
  pkg_dir :: path
  subprocess_run :: "arg list \<Rightarrow> path option \<Rightarrow> filesystem \<Rightarrow> proc"
  pdbfixer :: "filesystem \<Rightarrow> path \<Rightarrow> bool \<Rightarrow> pyval option \<Rightarrow> exc + string"
  csv_reader :: "string \<Rightarrow> string list list"
  to_csv :: "(int \<times> pyfloat \<times> pyfloat \<times> pyfloat) list \<Rightarrow> string"

definition log_event :: "event \<Rightarrow> world \<Rightarrow> world" where
  "log_event e w = w\<lparr>trace := trace w @ [e]\<rparr>"

definition resolve :: "path \<Rightarrow> world \<Rightarrow> path \<times> world" where
  "resolve p w = (p, log_event (Resolve p) w)"

definition is_file :: "path \<Rightarrow> world \<Rightarrow> bool \<times> world" where
  "is_file p w = ((case files w p of Some (File _) \<Rightarrow> True | _ \<Rightarrow> False), log_event (IsFile p) w)"

definition path_exists :: "path \<Rightarrow> world \<Rightarrow> bool \<times> world" where
  "path_exists p w = (files w p \<noteq> None, log_event (Exists p) w)"

definition is_dir :: "path \<Rightarrow> world \<Rightarrow> bool \<times> world" where
  "is_dir p w = (files w p = Some Dir, log_event (IsDir p) w)"

text \<open>
  \<^verbatim>\<open>mkdir(parents=True, exist_ok=True)\<close> and \<^verbatim>\<open>open(path, "w")\<close> are taken to succeed:
  what the operating system may refuse (permissions, a full disk, a regular file where a
  directory is wanted) is outside the model. The copying functions of \<^verbatim>\<open>shutil\<close> do fail
  here when the node they need is missing or of the wrong kind.
\<close>

definition mkdir_parents :: "filesystem \<Rightarrow> path \<Rightarrow> filesystem" where
  "mkdir_parents fs p = (\<lambda>q. if prefix q p \<and> fs q = None then Some Dir else fs q)"

definition mkdir :: "path \<Rightarrow> world \<Rightarrow> world" where
  "mkdir p w = log_event (Mkdir p) (w\<lparr>files := mkdir_parents (files w) p\<rparr>)"

definition write_file :: "path \<Rightarrow> string \<Rightarrow> world \<Rightarrow> world" where
  "write_file p s w = log_event (WriteFile p) (w\<lparr>files := (files w)(p \<mapsto> File s)\<rparr>)"

definition shutil_copy :: "path \<Rightarrow> path \<Rightarrow> world \<Rightarrow> (exc + unit) \<times> world" where
  \<comment> \<open>\<^verbatim>\<open>shutil.copy\<close> and \<^verbatim>\<open>shutil.copy2\<close>: a directory as destination receives the file
      under its own name; copying a file onto itself is refused.\<close>
  "shutil_copy src dst w =
     (let fs = files w;
          d = (if fs dst = Some Dir then dst @ [path_name src] else dst);
          w1 = log_event (CopyFile src d) w
      in case fs src of
           None \<Rightarrow> (Inl (Exc FileNotFoundError LibraryFailure), w1)
         | Some Dir \<Rightarrow> (Inl (Exc OSError LibraryFailure), w1)
         | Some (File bytes) \<Rightarrow>
             if d = src then (Inl (Exc OSError LibraryFailure), w1)
             else if fs d = Some Dir then (Inl (Exc OSError LibraryFailure), w1)
             else if fs (butlast d) \<noteq> Some Dir then (Inl (Exc FileNotFoundError LibraryFailure), w1)
             else (Inr (), w1\<lparr>files := fs(d \<mapsto> File bytes)\<rparr>))"

definition shutil_rmtree :: "path \<Rightarrow> world \<Rightarrow> (exc + unit) \<times> world" where
  "shutil_rmtree p w =
     (let fs = files w; w1 = log_event (RmTree p) w
      in case fs p of
           None \<Rightarrow> (Inl (Exc FileNotFoundError LibraryFailure), w1)
         | Some (File _) \<Rightarrow> (Inl (Exc OSError LibraryFailure), w1)
         | Some Dir \<Rightarrow> (Inr (), w1\<lparr>files := (\<lambda>q. if prefix p q then None else fs q)\<rparr>))"

definition shutil_copytree :: "path \<Rightarrow> path \<Rightarrow> world \<Rightarrow> (exc + unit) \<times> world" where
  \<comment> \<open>the source must be a directory and the destination must not exist; a destination inside
      the source makes the recursive copy descend into its own output until the operating
      system stops it.\<close>
  "shutil_copytree src dst w =
     (let fs = files w; w1 = log_event (CopyTree src dst) w
      in case fs src of
           None \<Rightarrow> (Inl (Exc FileNotFoundError LibraryFailure), w1)
         | Some (File _) \<Rightarrow> (Inl (Exc OSError LibraryFailure), w1)
         | Some Dir \<Rightarrow>
             if fs dst \<noteq> None then (Inl (Exc OSError LibraryFailure), w1)
             else if prefix src dst then (Inl (Exc OSError LibraryFailure), w1)
             else (Inr (), w1\<lparr>files :=
                     (\<lambda>q. if prefix dst q then fs (src @ drop (length dst) q) else fs q)\<rparr>))"

definition run_process :: "env \<Rightarrow> arg list \<Rightarrow> path option \<Rightarrow> world \<Rightarrow> proc \<times> world" where
  \<comment> \<open>\<^verbatim>\<open>subprocess.run(cmd, cwd=...)\<close>: the external program runs to its end and may change files.\<close>
  "run_process e cmd cwd w =
     (let r = subprocess_run e cmd cwd (files w)
      in (r, log_event (Run cmd cwd) (w\<lparr>files := files_after r\<rparr>)))"

section \<open>Docking engine\<close>

text \<open>
  A row of the result table; the data frame is the list of its rows under the fixed column
  names \<^verbatim>\<open>mode\<close>, \<^verbatim>\<open>affinity_kcal_mol\<close>, \<^verbatim>\<open>rmsd_lb\<close>, \<^verbatim>\<open>rmsd_ub\<close>.
\<close>

record pose =
  mode :: int
  affinity_kcal_mol :: pyfloat
  rmsd_lb :: pyfloat
  rmsd_ub :: pyfloat

text \<open>The fields \<^verbatim>\<open>center\<close> and \<^verbatim>\<open>size\<close> are named \<open>grid_center\<close> and \<open>grid_size\<close> here.\<close>

record VinaDocking =
  receptor :: path
  ligand :: path
  grid_center :: pyval
  grid_size :: pyval
  exhaustiveness :: pyval
  num_modes :: pyval
  cpu :: pyval
  seed :: pyval
  base_name :: string
  output_pdbqt :: path
  output_log :: path
  output_csv :: path
  vina_output :: "string option"
  docking_df :: "pose list option"

definition is_3tuple :: "pyval \<Rightarrow> bool" where
  \<comment> \<open>\<^verbatim>\<open>isinstance(v, tuple) and len(v) == 3\<close>\<close>
  "is_3tuple v = (case v of PyTuple xs \<Rightarrow> length xs = 3 | _ \<Rightarrow> False)"

definition is_number :: "pyval \<Rightarrow> bool" where
  \<comment> \<open>\<^verbatim>\<open>isinstance(v, (float, int))\<close>; \<^verbatim>\<open>bool\<close> is a subclass of \<^verbatim>\<open>int\<close>.\<close>
  "is_number v = (case v of PyInt _ \<Rightarrow> True | PyFloat _ \<Rightarrow> True | PyBool _ \<Rightarrow> True | _ \<Rightarrow> False)"

definition tuple_items :: "pyval \<Rightarrow> pyval list" where
  "tuple_items v = (case v of PyTuple xs \<Rightarrow> xs | _ \<Rightarrow> [])"

definition VinaDocking_validate_inputs :: "pyval \<Rightarrow> pyval \<Rightarrow> exc option" where
  \<comment> \<open>\<^verbatim>\<open>None\<close>: the checks pass.\<close>
  "VinaDocking_validate_inputs center sz =
     (if \<not> is_3tuple center then Some (Exc ValueError CenterNot3Tuple)
      else if \<not> is_3tuple sz then Some (Exc ValueError SizeNot3Tuple)
      else if list_ex (\<lambda>v. \<not> is_number v) (tuple_items center @ tuple_items sz)
        then Some (Exc TypeError GridValuesNotNumeric)
      else None)"

definition VinaDocking_init ::
  "env \<Rightarrow> path \<Rightarrow> path \<Rightarrow> pyval \<Rightarrow> pyval \<Rightarrow> pyval \<Rightarrow> pyval \<Rightarrow> pyval \<Rightarrow> pyval \<Rightarrow> world
     \<Rightarrow> (exc + VinaDocking) \<times> world" where
  "VinaDocking_init e receptor_arg ligand_arg center sz exh modes cpus sd w =
     (case resolve receptor_arg w of (rec_path, w1) \<Rightarrow>
      case resolve ligand_arg w1 of (lig_path, w2) \<Rightarrow>
        (case VinaDocking_validate_inputs center sz of
           Some x \<Rightarrow> (Inl x, w2)
         | None \<Rightarrow>
            (case is_file rec_path w2 of (rec_ok, w3) \<Rightarrow>
               if \<not> rec_ok then (Inl (Exc FileNotFoundError (ReceptorNotFound rec_path)), w3)
               else
                 (case is_file lig_path w3 of (lig_ok, w4) \<Rightarrow>
                    if \<not> lig_ok then (Inl (Exc FileNotFoundError (LigandFileNotFound lig_path)), w4)
                    else
                      (case resolve (pkg_dir e @ [''temp'', ''vina_results'']) w4 of
                         (temp_results_dir, w5) \<Rightarrow>
                           (let bn = path_stem rec_path @ ''_'' @ path_stem lig_path @ ''_docked''
                            in (Inr \<lparr>receptor = rec_path, ligand = lig_path,
                                     grid_center = center, grid_size = sz,
                                     exhaustiveness = exh, num_modes = modes, cpu = cpus,
                                     seed = sd, base_name = bn,
                                     output_pdbqt = temp_results_dir @ [bn @ ''.pdbqt''],
                                     output_log = temp_results_dir @ [bn @ ''.log''],
                                     output_csv = temp_results_dir @ [bn @ ''.csv''],
                                     vina_output = None, docking_df = None\<rparr>,
                                mkdir temp_results_dir w5)))))))"

definition subscript3 :: "pyval \<Rightarrow> exc + pyval \<times> pyval \<times> pyval" where
  \<comment> \<open>\<^verbatim>\<open>(v[0], v[1], v[2])\<close>\<close>
  "subscript3 v =
     (let pick = (\<lambda>xs. case xs of a # b # c # _ \<Rightarrow> Inr (a, b, c)
                          | _ \<Rightarrow> Inl (Exc IndexError LibraryFailure))
      in case v of
           PyTuple xs \<Rightarrow> pick xs
         | PyList xs \<Rightarrow> pick xs
         | PyStr s \<Rightarrow> pick (map (\<lambda>c. PyStr [c]) s)
         | _ \<Rightarrow> Inl (Exc TypeError LibraryFailure))"

definition VinaDocking_command :: "env \<Rightarrow> VinaDocking \<Rightarrow> exc + arg list" where
  "VinaDocking_command e self =
     (case subscript3 (grid_center self) of
        Inl x \<Rightarrow> Inl x
      | Inr (cx, cy, cz) \<Rightarrow>
          (case subscript3 (grid_size self) of
             Inl x \<Rightarrow> Inl x
           | Inr (sx, sy, sz) \<Rightarrow>
               Inr ([PathArg (pkg_dir e @ [''bin'', ''Vina'', ''vina.exe'']),
                     Lit ''--receptor'', PathArg (receptor self),
                     Lit ''--ligand'', PathArg (ligand self),
                     Lit ''--center_x'', ValArg cx,
                     Lit ''--center_y'', ValArg cy,
                     Lit ''--center_z'', ValArg cz,
                     Lit ''--size_x'', ValArg sx,
                     Lit ''--size_y'', ValArg sy,
                     Lit ''--size_z'', ValArg sz,
                     Lit ''--out'', PathArg (output_pdbqt self),
                     Lit ''--exhaustiveness'', ValArg (exhaustiveness self),
                     Lit ''--num_modes'', ValArg (num_modes self),
                     Lit ''--cpu'', ValArg (cpu self)]
                    @ (if seed self \<noteq> PyNone then [Lit ''--seed'', ValArg (seed self)] else []))))"

definition parse_row :: "string list \<Rightarrow> pose option" where
  \<comment> \<open>the body of the \<^verbatim>\<open>try\<close>: unpack four tokens and convert them in turn; \<^verbatim>\<open>None\<close> is
      the \<^verbatim>\<open>ValueError\<close> that the handler swallows.\<close>
  "parse_row tokens =
     (case tokens of
        [m, a, lb, ub] \<Rightarrow>
          (case py_int m of
             None \<Rightarrow> None
           | Some mi \<Rightarrow>
               (case py_float a of
                  None \<Rightarrow> None
                | Some af \<Rightarrow>
                    (case py_float lb of
                       None \<Rightarrow> None
                     | Some lf \<Rightarrow>
                         (case py_float ub of
                            None \<Rightarrow> None
                          | Some uf \<Rightarrow>
                              Some \<lparr>mode = mi, affinity_kcal_mol = af,
                                    rmsd_lb = lf, rmsd_ub = uf\<rparr>))))
      | _ \<Rightarrow> None)"

fun scan_lines :: "bool \<Rightarrow> pose list \<Rightarrow> string list \<Rightarrow> pose list" where
  \<comment> \<open>the \<^verbatim>\<open>for line in lines\<close> loop, with its variables \<^verbatim>\<open>header_found\<close> and \<^verbatim>\<open>data\<close>\<close>
  "scan_lines header_found data [] = data"
| "scan_lines header_found data (line # lines) =
     (if str_startswith (str_strip line) ''mode'' then scan_lines True data lines
      else if header_found \<and> str_strip line \<noteq> [] \<and> \<not> str_startswith line ''-'' then
        (let tokens = str_split line
         in if length tokens = 4 then
              (case parse_row tokens of
                 Some r \<Rightarrow> scan_lines header_found (data @ [r]) lines
               | None \<Rightarrow> scan_lines header_found data lines)
            else scan_lines header_found data lines)
      else scan_lines header_found data lines)"

definition VinaDocking_parse_output :: "VinaDocking \<Rightarrow> exc + pose list" where
  "VinaDocking_parse_output self =
     (case vina_output self of
        None \<Rightarrow> Inl (Exc RuntimeError NoVinaOutput)
      | Some out \<Rightarrow>
          (let data = scan_lines False [] (str_splitlines out)
           in if data = [] then Inl (Exc ValueError NoDockingResults) else Inr data))"

definition pose_tuple :: "pose \<Rightarrow> int \<times> pyfloat \<times> pyfloat \<times> pyfloat" where
  "pose_tuple r = (mode r, affinity_kcal_mol r, rmsd_lb r, rmsd_ub r)"

definition VinaDocking_run ::
  "env \<Rightarrow> VinaDocking \<Rightarrow> world \<Rightarrow> (exc + pose list) \<times> VinaDocking \<times> world" where
  "VinaDocking_run e self w =
     (case VinaDocking_command e self of
        Inl x \<Rightarrow> (Inl x, self, w)
      | Inr cmd \<Rightarrow>
          (case run_process e cmd None w of (r, w1) \<Rightarrow>
             if returncode r \<noteq> 0 then
               (Inl (Exc RuntimeError
                      (VinaFailed (if stderr r \<noteq> [] then stderr r else stdout r))), self, w1)
             else
               (let self1 = self\<lparr>vina_output := Some (stdout r)\<rparr>;
                    w2 = (if stdout r \<noteq> [] then write_file (output_log self) (stdout r) w1
                          else w1)
                in case VinaDocking_parse_output self1 of
                     Inl x \<Rightarrow> (Inl x, self1, w2)
                   | Inr df \<Rightarrow>
                       (Inr df, self1\<lparr>docking_df := Some df\<rparr>,
                        write_file (output_csv self) (to_csv e (map pose_tuple df)) w2))))"

fun all_exist :: "path list \<Rightarrow> world \<Rightarrow> bool \<times> world" where
  \<comment> \<open>\<^verbatim>\<open>all(file.exists() for file in ...)\<close>, which stops at the first missing file\<close>
  "all_exist [] w = (True, w)"
| "all_exist (p # ps) w =
     (case path_exists p w of (ok, w1) \<Rightarrow> if ok then all_exist ps w1 else (False, w1))"

fun copy_each :: "path list \<Rightarrow> path \<Rightarrow> world \<Rightarrow> (exc + unit) \<times> world" where
  \<comment> \<open>\<^verbatim>\<open>for file in ...: shutil.copy(file, save_dir / file.name)\<close>\<close>
  "copy_each [] d w = (Inr (), w)"
| "copy_each (f # fs) d w =
     (case shutil_copy f (d @ [path_name f]) w of
        (Inl x, w1) \<Rightarrow> (Inl x, w1)
      | (Inr _, w1) \<Rightarrow> copy_each fs d w1)"

definition VinaDocking_save_results ::
  "VinaDocking \<Rightarrow> path \<Rightarrow> world \<Rightarrow> (exc + unit) \<times> world" where
  "VinaDocking_save_results self save_dir_arg w =
     (let outs = [output_pdbqt self, output_log self, output_csv self]
      in case all_exist outs w of (ok, w1) \<Rightarrow>
           if \<not> ok then (Inl (Exc RuntimeError DockingResultsMissing), w1)
           else (case resolve save_dir_arg w1 of (save_dir, w2) \<Rightarrow>
                   copy_each outs save_dir (mkdir save_dir w2)))"

section \<open>Pocket finder\<close>

record pocket =
  rank :: nat
  center :: "pyfloat \<times> pyfloat \<times> pyfloat"

record PocketFinder =
  protein_path :: path
  output_dir :: path
  threads :: pyval

definition PocketFinder_init ::
  "env \<Rightarrow> path \<Rightarrow> pyval \<Rightarrow> world \<Rightarrow> (exc + PocketFinder) \<times> world" where
  "PocketFinder_init e protein_path_arg threads_arg w =
     (case resolve protein_path_arg w of (p, w1) \<Rightarrow>
      case is_file p w1 of (ok, w2) \<Rightarrow>
        if \<not> ok then (Inl (Exc FileNotFoundError (PdbNotFound p)), w2)
        else if str_lower (path_suffix p) \<noteq> ''.pdb'' then (Inl (Exc ValueError OnlyPdbSupported), w2)
        else
          (case resolve (pkg_dir e @ [''temp'', ''p2rank_results'']) w2 of (temp_p2rank_dir, w3) \<Rightarrow>
             (let w4 = mkdir temp_p2rank_dir w3;
                  out = temp_p2rank_dir @ [path_stem p]
              in (Inr \<lparr>protein_path = p, output_dir = out, threads = threads_arg\<rparr>,
                  mkdir out w4))))"

text \<open>
  \<^verbatim>\<open>csv.DictReader\<close> over the rows that \<^verbatim>\<open>csv.reader\<close> yields: the first row gives the field
  names, empty rows are passed over, a later duplicate of a field name wins, and a row shorter
  than the field names has \<^verbatim>\<open>None\<close> in the missing cells. A dictionary maps a key to its
  cell; the cell is \<open>None\<close> for Python's \<^verbatim>\<open>None\<close>. Cells beyond the field names go under the
  key \<^verbatim>\<open>None\<close>, which no lookup below asks for.
\<close>

type_synonym csv_dict = "string \<Rightarrow> string option option"

definition dict_row :: "string list \<Rightarrow> string list \<Rightarrow> csv_dict" where
  "dict_row fieldnames row =
     map_of (rev (zip fieldnames
                      (map Some row @ replicate (length fieldnames - length row) None)))"

definition DictReader :: "string list list \<Rightarrow> csv_dict list" where
  "DictReader rows =
     (case rows of
        [] \<Rightarrow> []
      | fieldnames # rest \<Rightarrow> map (dict_row fieldnames) (filter (\<lambda>r. r \<noteq> []) rest))"

definition dict_get :: "csv_dict \<Rightarrow> string \<Rightarrow> string option \<Rightarrow> string option" where
  \<comment> \<open>\<^verbatim>\<open>row.get(key, default)\<close>\<close>
  "dict_get row key dflt = (case row key of None \<Rightarrow> dflt | Some v \<Rightarrow> v)"

definition coordinate :: "csv_dict \<Rightarrow> string \<Rightarrow> cause + pyfloat" where
  \<comment> \<open>\<^verbatim>\<open>float(row.get(key, row.get("   " + key, "0")).strip())\<close>\<close>
  "coordinate row key =
     (case dict_get row key (dict_get row (''   '' @ key) (Some ''0'')) of
        None \<Rightarrow> Inl NoneHasNoStrip
      | Some s \<Rightarrow>
          (case py_float (str_strip s) of
             None \<Rightarrow> Inl (CouldNotConvert (str_strip s))
           | Some v \<Rightarrow> Inr v))"

definition row_center :: "csv_dict \<Rightarrow> cause + pyfloat \<times> pyfloat \<times> pyfloat" where
  "row_center row =
     (case coordinate row ''center_x'' of
        Inl c \<Rightarrow> Inl c
      | Inr x \<Rightarrow>
          (case coordinate row ''center_y'' of
             Inl c \<Rightarrow> Inl c
           | Inr y \<Rightarrow>
               (case coordinate row ''center_z'' of
                  Inl c \<Rightarrow> Inl c
                | Inr z \<Rightarrow> Inr (x, y, z))))"

fun parse_rows :: "nat \<Rightarrow> pocket list \<Rightarrow> csv_dict list \<Rightarrow> exc + pocket list" where
  \<comment> \<open>\<^verbatim>\<open>for idx, row in enumerate(reader, start=1)\<close> with the inner \<^verbatim>\<open>try\<close>\<close>
  "parse_rows idx pockets [] = Inr pockets"
| "parse_rows idx pockets (row # rows) =
     (case row_center row of
        Inl c \<Rightarrow> Inl (Exc ValueError (ErrorParsingRow idx c))
      | Inr xyz \<Rightarrow> parse_rows (Suc idx) (pockets @ [\<lparr>rank = idx, center = xyz\<rparr>]) rows)"

definition PocketFinder_parse_output ::
  "env \<Rightarrow> PocketFinder \<Rightarrow> world \<Rightarrow> (exc + pocket list) \<times> world" where
  "PocketFinder_parse_output e self w =
     (let csv_path = output_dir self @ [path_name (protein_path self) @ ''_predictions.csv'']
      in case is_file csv_path w of (ok, w1) \<Rightarrow>
           if \<not> ok then (Inl (Exc FileNotFoundError (PredictionCsvNotFound csv_path)), w1)
           else
             (let w2 = log_event (ReadFile csv_path) w1;
                  content = (case files w csv_path of Some (File s) \<Rightarrow> s | _ \<Rightarrow> [])
              in case parse_rows 1 [] (DictReader (csv_reader e content)) of
                   Inl (Exc c m) \<Rightarrow> (Inl (Exc ValueError (FailedToReadCsv m)), w2)
                 | Inr pockets \<Rightarrow>
                     if pockets = [] then (Inl (Exc ValueError (NoPocketCenters csv_path)), w2)
                     else (Inr pockets, w2)))"

definition PocketFinder_run ::
  "env \<Rightarrow> PocketFinder \<Rightarrow> world \<Rightarrow> (exc + pocket list) \<times> world" where
  "PocketFinder_run e self w =
     (let command = [PathArg (pkg_dir e @ [''bin'', ''p2rank_2.5'', ''prank.bat'']),
                     Lit ''predict'',
                     Lit ''-f'', PathArg (protein_path self),
                     Lit ''-o'', PathArg (output_dir self),
                     Lit ''-threads'', ValArg (threads self)]
      in case run_process e command None w of (r, w1) \<Rightarrow>
           if returncode r \<noteq> 0 then
             (Inl (Exc RuntimeError
                    (P2RankFailed (if str_strip (stderr r) \<noteq> [] then str_strip (stderr r)
                                   else str_strip (stdout r)))), w1)
           else PocketFinder_parse_output e self w1)"

definition PocketFinder_save_report ::
  "PocketFinder \<Rightarrow> path \<Rightarrow> world \<Rightarrow> (exc + unit) \<times> world" where
  "PocketFinder_save_report self save_dir_arg w =
     (case path_exists (output_dir self) w of (ex, w1) \<Rightarrow>
        if \<not> ex then (Inl (Exc RuntimeError (OutputFolderNotFound (output_dir self))), w1)
        else
          (case is_dir (output_dir self) w1 of (isd, w2) \<Rightarrow>
             if \<not> isd then (Inl (Exc RuntimeError (OutputFolderNotFound (output_dir self))), w2)
             else
               (case resolve save_dir_arg w2 of (save_dir, w3) \<Rightarrow>
                  (let w4 = mkdir save_dir w3;
                       target_dir = save_dir @ [path_name (output_dir self)]
                   in case path_exists target_dir w4 of (tex, w5) \<Rightarrow>
                        if tex then
                          (case shutil_rmtree target_dir w5 of
                             (Inl x, w6) \<Rightarrow> (Inl x, w6)
                           | (Inr _, w6) \<Rightarrow> shutil_copytree (output_dir self) target_dir w6)
                        else shutil_copytree (output_dir self) target_dir w5))))"

section \<open>Protein preparer\<close>

record Protein =
  file_path :: path
  pdb_path :: "path option"
  pdbqt_path :: "path option"
  ext :: string

definition Protein_SUPPORTED_INPUTS :: "string list" where
  "Protein_SUPPORTED_INPUTS = [''.pdb'', ''.mol2'', ''.sdf'', ''.pdbqt'', ''.ent'', ''.xyz'']"

definition Protein_init :: "path \<Rightarrow> world \<Rightarrow> (exc + Protein) \<times> world" where
  "Protein_init file_path_arg w =
     (case resolve file_path_arg w of (p, w1) \<Rightarrow>
      case is_file p w1 of (ok, w2) \<Rightarrow>
        if \<not> ok then (Inl (Exc FileNotFoundError (ProteinNotFound p)), w2)
        else
          (let x = str_lower (path_suffix p)
           in if x \<notin> set Protein_SUPPORTED_INPUTS then (Inl (Exc ValueError (UnsupportedFormat x)), w2)
              else (Inr \<lparr>file_path = p, pdb_path = None, pdbqt_path = None, ext = x\<rparr>, w2)))"

definition Protein_to_pdb :: "env \<Rightarrow> Protein \<Rightarrow> world \<Rightarrow> (exc + path) \<times> Protein \<times> world" where
  \<comment> \<open>the first step of \<^verbatim>\<open>prepare\<close>: convert to PDB unless the input already is one\<close>
  "Protein_to_pdb e self w =
     (if ext self \<noteq> ''.pdb'' then
        (let p = pkg_dir e @ [''temp'', path_stem (file_path self) @ ''.pdb''];
             cmd = [PathArg (pkg_dir e @ [''bin'', ''OpenBabel-3.1.1'', ''obabel.exe'']),
                    PathArg (file_path self), Lit ''-O'', PathArg p, Lit ''--gen3d'']
         in case run_process e cmd None w of (r, w1) \<Rightarrow>
              if returncode r \<noteq> 0
              then (Inl (Exc CalledProcessError (ProcessFailed cmd (returncode r))),
                    self\<lparr>pdb_path := Some p\<rparr>, w1)
              else (Inr p, self\<lparr>pdb_path := Some p\<rparr>, w1))
      else (Inr (file_path self), self\<lparr>pdb_path := Some (file_path self)\<rparr>, w))"

definition Protein_prepare ::
  "env \<Rightarrow> Protein \<Rightarrow> pyval \<Rightarrow> bool \<Rightarrow> bool \<Rightarrow> bool \<Rightarrow> world \<Rightarrow> (exc + unit) \<times> Protein \<times> world"
  where
  "Protein_prepare e self pH add_hydrogens remove_water add_charges w =
     (case Protein_to_pdb e self w of
        (Inl x, self1, w1) \<Rightarrow> (Inl x, self1, w1)
      | (Inr p, self1, w1) \<Rightarrow>
          (let ph = (if add_hydrogens then Some pH else None);
               w2 = log_event (Fixer p (\<not> remove_water) ph) w1
           in case pdbfixer e (files w1) p (\<not> remove_water) ph of
                Inl x \<Rightarrow> (Inl x, self1, w2)
              | Inr fixed \<Rightarrow>
                  (let fixed_pdb_path = pkg_dir e @ [''temp'', path_stem (file_path self) @ ''_fixed.pdb''];
                       w3 = write_file fixed_pdb_path fixed w2;
                       self2 = self1\<lparr>pdb_path := Some fixed_pdb_path\<rparr>;
                       out = pkg_dir e @ [''temp'', path_stem (file_path self) @ ''.pdbqt''];
                       cmd = [PathArg (pkg_dir e @ [''bin'', ''mgltools'', ''python.exe'']),
                              PathArg (pkg_dir e @ [''bin'', ''mgltools'', ''Lib'', ''site-packages'',
                                                     ''AutoDockTools'', ''Utilities24'',
                                                     ''prepare_receptor4.py'']),
                              Lit ''-r'', PathArg fixed_pdb_path, Lit ''-o'', PathArg out]
                             @ (if add_hydrogens then [Lit ''-A'', Lit ''hydrogens''] else [])
                             @ (if remove_water then [Lit ''-U'', Lit ''waters''] else [])
                   in case run_process e cmd None w3 of (r, w4) \<Rightarrow>
                        if returncode r \<noteq> 0
                        then (Inl (Exc CalledProcessError (ProcessFailed cmd (returncode r))), self2, w4)
                        else (Inr (), self2\<lparr>pdbqt_path := Some out\<rparr>, w4))))"

definition Protein_save_pdbqt :: "Protein \<Rightarrow> path \<Rightarrow> world \<Rightarrow> (exc + unit) \<times> world" where
  "Protein_save_pdbqt self save_path_arg w =
     (case pdbqt_path self of
        None \<Rightarrow> (Inl (Exc RuntimeError ProteinNotPrepared), w)
      | Some pq \<Rightarrow>
          (case path_exists pq w of (ex, w1) \<Rightarrow>
             if \<not> ex then (Inl (Exc RuntimeError ProteinNotPrepared), w1)
             else (case resolve save_path_arg w1 of (save_path, w2) \<Rightarrow>
                     shutil_copy pq save_path (mkdir (path_parent save_path) w2))))"

section \<open>Ligand preparer\<close>

record Ligand =
  ligand_file_path :: path
  mol2_path :: "path option"
  ligand_pdbqt_path :: "path option"
  input_format :: string

definition Ligand_SUPPORTED_INPUTS :: "string list" where
  "Ligand_SUPPORTED_INPUTS = [''mol2'', ''sdf'', ''pdb'', ''mol'', ''smi'']"

definition Ligand_SUPPORTED_FORCEFIELDS :: "string list" where
  "Ligand_SUPPORTED_FORCEFIELDS = [''mmff94'', ''mmff94s'', ''uff'', ''gaff'']"

definition Ligand_init :: "path \<Rightarrow> world \<Rightarrow> (exc + Ligand) \<times> world" where
  "Ligand_init file_path_arg w =
     (case resolve file_path_arg w of (p, w1) \<Rightarrow>
      case is_file p w1 of (ok, w2) \<Rightarrow>
        if \<not> ok then (Inl (Exc FileNotFoundError (LigandNotFound p)), w2)
        else
          (let x = lstrip_chars (str_lower (path_suffix p)) ''.''
           in if x \<notin> set Ligand_SUPPORTED_INPUTS then (Inl (Exc ValueError (UnsupportedFormat x)), w2)
              else (Inr \<lparr>ligand_file_path = p, mol2_path = None, ligand_pdbqt_path = None,
                        input_format = x\<rparr>, w2)))"

fun str_join :: "string \<Rightarrow> string list \<Rightarrow> string" where
  "str_join sep [] = []"
| "str_join sep [x] = x"
| "str_join sep (x # y # ys) = x @ sep @ str_join sep (y # ys)"

definition Ligand_prepare ::
  "env \<Rightarrow> Ligand \<Rightarrow> string option \<Rightarrow> bool \<Rightarrow> bool \<Rightarrow> bool \<Rightarrow> bool \<Rightarrow> world
     \<Rightarrow> (exc + unit) \<times> Ligand \<times> world" where
  "Ligand_prepare e self minimize add_hydrogens remove_nphs remove_lps remove_waters w =
     (let temp_dir = pkg_dir e @ [''temp''];
          mol2 = temp_dir @ [path_stem (ligand_file_path self) @ ''.mol2''];
          self1 = self\<lparr>mol2_path := Some mol2\<rparr>;
          cmd = [PathArg (pkg_dir e @ [''bin'', ''OpenBabel-3.1.1'', ''obabel.exe'']),
                 Lit ''-i'', Lit (input_format self), PathArg (ligand_file_path self),
                 Lit ''-o'', Lit ''mol2'', Lit ''-O'', PathArg mol2,
                 Lit ''--gen3d'', Lit ''-h'']
      in case (case minimize of
                 None \<Rightarrow> Inr cmd
               | Some m \<Rightarrow>
                   if m = [] then Inr cmd
                   else (let forcefield = str_lower m
                         in if forcefield \<notin> set Ligand_SUPPORTED_FORCEFIELDS
                            then Inl (Exc ValueError (UnsupportedForcefield forcefield))
                            else Inr (cmd @ [Lit ''--minimize'', Lit ''--ff'', Lit forcefield]))) of
           Inl x \<Rightarrow> (Inl x, self1, w)
         | Inr cmd1 \<Rightarrow>
             (case run_process e cmd1 None w of (r, w1) \<Rightarrow>
                if returncode r \<noteq> 0
                then (Inl (Exc CalledProcessError (ProcessFailed cmd1 (returncode r))), self1, w1)
                else
                  (let pdbqt_filename = name_stem (path_name mol2) @ ''.pdbqt'';
                       remove_flags = (if remove_nphs then [''nphs''] else [])
                                      @ (if remove_lps then [''lps''] else [])
                                      @ (if remove_waters then [''waters''] else []);
                       mgl_cmd = [PathArg (pkg_dir e @ [''bin'', ''mgltools'', ''python.exe'']),
                                  PathArg (pkg_dir e @ [''bin'', ''mgltools'', ''Lib'', ''site-packages'',
                                                         ''AutoDockTools'', ''Utilities24'',
                                                         ''prepare_ligand4.py'']),
                                  Lit ''-l'', Lit (path_name mol2), Lit ''-o'', Lit pdbqt_filename]
                                 @ (if add_hydrogens then [Lit ''-A'', Lit ''hydrogens''] else [])
                                 @ (if remove_flags \<noteq> [] then [Lit ''-U'', Lit (str_join ''_'' remove_flags)]
                                    else [])
                   in case run_process e mgl_cmd (Some temp_dir) w1 of (r2, w2) \<Rightarrow>
                        if returncode r2 \<noteq> 0 then (Inl (Exc RuntimeError MGLToolsFailed), self1, w2)
                        else (Inr (), self1\<lparr>ligand_pdbqt_path := Some (temp_dir @ [pdbqt_filename])\<rparr>, w2))))"

section \<open>The specification's notions for the result table\<close>

text \<open>
  A header line is one whose stripped text begins with \<^verbatim>\<open>mode\<close>; a line consists of four
  numeric tokens when it splits into exactly four tokens of which the first reads as an
  integer and the other three as floats; a data row is such a line that is neither empty,
  nor a header, nor a separator (a line starting with a dash). The rows of a transcript are
  the data rows after its first header line, in the order of the file.
\<close>

definition is_header :: "string \<Rightarrow> bool" where
  "is_header line = str_startswith (str_strip line) ''mode''"

definition numeric_row :: "string \<Rightarrow> pose option" where
  "numeric_row line = parse_row (str_split line)"

definition data_row :: "string \<Rightarrow> pose option" where
  "data_row line =
     (if is_header line \<or> str_strip line = [] \<or> str_startswith line ''-'' then None
      else numeric_row line)"

definition rows_after_header :: "string list \<Rightarrow> pose list" where
  "rows_after_header lines =
     (case dropWhile (\<lambda>l. \<not> is_header l) lines of
        [] \<Rightarrow> []
      | h # body \<Rightarrow> List.map_filter data_row body)"

section \<open>Example inputs\<close>

definition example_transcript :: string where
  "example_transcript =
     ''Performing search ... done.'' @ [CHR 0x0A] @
     ''mode |   affinity | dist from best mode'' @ [CHR 0x0A] @
     ''     | (kcal/mol) | rmsd l.b.| rmsd u.b.'' @ [CHR 0x0A] @
     ''-----+------------+----------+----------'' @ [CHR 0x0A] @
     ''   1       -7.5      0.000      0.000'' @ [CHR 0x0A] @
     ''   2       -7.1      1.250      2.5'' @ [CHR 0x0A] @
     ''   x       -7.0      1.0      2.0'' @ [CHR 0x0A] @
     ''   3       -6.8      3.0     4.75'' @ [CHR 0x0A] @
     ''Writing output ... done.'' @ [CHR 0x0A]"

definition example_docking :: VinaDocking where
  "example_docking =
     \<lparr>receptor = [''data'', ''rec.pdbqt''], ligand = [''data'', ''lig.pdbqt''],
      grid_center = PyTuple [PyInt 1, PyInt 2, PyInt 3],
      grid_size = PyTuple [PyInt 20, PyInt 20, PyInt 20],
      exhaustiveness = PyInt 8, num_modes = PyInt 9, cpu = PyInt 4, seed = PyNone,
      base_name = ''rec_lig_docked'',
      output_pdbqt = [''pkg'', ''temp'', ''vina_results'', ''rec_lig_docked.pdbqt''],
      output_log = [''pkg'', ''temp'', ''vina_results'', ''rec_lig_docked.log''],
      output_csv = [''pkg'', ''temp'', ''vina_results'', ''rec_lig_docked.csv''],
      vina_output = None, docking_df = None\<rparr>"

definition example_transcript_clean :: string where
  "example_transcript_clean =
     ''Performing search ... done.'' @ [CHR 0x0A] @
     ''mode |   affinity | dist from best mode'' @ [CHR 0x0A] @
     ''     | (kcal/mol) | rmsd l.b.| rmsd u.b.'' @ [CHR 0x0A] @
     ''-----+------------+----------+----------'' @ [CHR 0x0A] @
     ''   1       -7.5      0.000      0.000'' @ [CHR 0x0A] @
     ''   2       -7.1      1.250      2.5'' @ [CHR 0x0A] @
     ''   3       -6.8      3.0     4.75'' @ [CHR 0x0A] @
     ''Writing output ... done.'' @ [CHR 0x0A]"



text \<open>
  An instance of the tokenizer, for text without quote characters: one row per line, the
  cells separated by commas, an empty line giving the empty row.
\<close>

fun split_commas :: "string \<Rightarrow> string \<Rightarrow> string list" where
  "split_commas cur [] = [cur]"
| "split_commas cur (c # cs) =
     (if c = CHR '','' then cur # split_commas [] cs else split_commas (cur @ [c]) cs)"

definition example_csv_reader :: "string \<Rightarrow> string list list" where
  "example_csv_reader content =
     map (\<lambda>l. if l = [] then [] else split_commas [] l) (str_splitlines content)"

definition quiet_process :: "arg list \<Rightarrow> path option \<Rightarrow> filesystem \<Rightarrow> proc" where
  \<comment> \<open>an external program that exits with status 0, prints nothing and touches no file\<close>
  "quiet_process cmd cwd fs = \<lparr>returncode = 0, stdout = [], stderr = [], files_after = fs\<rparr>"

definition example_env :: env where
  "example_env =
     \<lparr>pkg_dir = [''pkg''],
      subprocess_run = quiet_process,
      pdbfixer = (\<lambda>fs p keep_water ph. Inr ''ATOM''),
      csv_reader = example_csv_reader,
      to_csv = (\<lambda>rows. ''mode,affinity_kcal_mol,rmsd_lb,rmsd_ub'')\<rparr>"

definition example_pocket_finder :: PocketFinder where
  "example_pocket_finder =
     \<lparr>protein_path = [''data'', ''1abc.pdb''],
      output_dir = [''pkg'', ''temp'', ''p2rank_results'', ''1abc''],
      threads = PyInt 4\<rparr>"

definition example_csv_path :: path where
  "example_csv_path = [''pkg'', ''temp'', ''p2rank_results'', ''1abc'', ''1abc.pdb_predictions.csv'']"

definition world_with_csv :: "string \<Rightarrow> world" where
  "world_with_csv content = \<lparr>files = [example_csv_path \<mapsto> File content], trace = []\<rparr>"

definition example_csv :: string where
  "example_csv =
     ''name     ,  rank,   center_x,   center_y,   center_z'' @ [CHR 0x0A] @
     ''pocket1  ,     1,    10.5,   -3.25,      7'' @ [CHR 0x0A] @
     ''pocket2  ,     2,     1e1,     0.5,    -2.0'' @ [CHR 0x0A]"

definition example_csv_bad :: string where
  "example_csv_bad =
     ''name     ,  rank,   center_x,   center_y,   center_z'' @ [CHR 0x0A] @
     ''pocket1  ,     1,    10.5,   -3.25,      7'' @ [CHR 0x0A] @
     ''pocket2  ,     2,     n/a,     0.5,    -2.0'' @ [CHR 0x0A]"

definition example_csv_empty :: string where
  "example_csv_empty = ''name     ,  rank,   center_x,   center_y,   center_z'' @ [CHR 0x0A]"

definition example_csv_no_centers :: string where
  "example_csv_no_centers =
     ''name,rank,score'' @ [CHR 0x0A] @
     ''pocket1,1,0.9'' @ [CHR 0x0A] @
     ''pocket2,2,0.4'' @ [CHR 0x0A]"

definition regular_file :: "filesystem \<Rightarrow> path \<Rightarrow> bool" where
  \<comment> \<open>the input file exists: the path names a regular file\<close>
  "regular_file fs p = (case fs p of Some (File _) \<Rightarrow> True | _ \<Rightarrow> False)"

definition valid_geometry :: "pyval \<Rightarrow> pyval \<Rightarrow> bool" where
  \<comment> \<open>center and size are each a 3-tuple, and all six entries are numbers\<close>
  "valid_geometry c s =
     (is_3tuple c \<and> is_3tuple s \<and> list_all is_number (tuple_items c @ tuple_items s))"

definition world_with_inputs :: world where
  "world_with_inputs =
     \<lparr>files = [[''data'', ''1abc.pdb''] \<mapsto> File ''ATOM'',
               [''data'', ''2xyz.ENT''] \<mapsto> File ''ATOM'',
               [''data'', ''lig.SDF''] \<mapsto> File ''mol'',
               [''data'', ''notes.txt''] \<mapsto> File ''hello'',
               [''data'', ''rec.pdbqt''] \<mapsto> File ''receptor'',
               [''data'', ''lig.pdbqt''] \<mapsto> File ''ligand''],
      trace = []\<rparr>"

definition example_protein :: Protein where
  "example_protein =
     \<lparr>file_path = [''data'', ''1abc.pdb''], pdb_path = None, pdbqt_path = None, ext = ''.pdb''\<rparr>"

definition example_ligand :: Ligand where
  "example_ligand =
     \<lparr>ligand_file_path = [''data'', ''lig.SDF''], mol2_path = None, ligand_pdbqt_path = None,
      input_format = ''sdf''\<rparr>"

definition world_with_stale_results :: world where
  \<comment> \<open>the temporary results directory still holds the three files of an earlier run\<close>
  "world_with_stale_results =
     \<lparr>files = [[] \<mapsto> Dir, [''data''] \<mapsto> Dir,
               [''data'', ''rec.pdbqt''] \<mapsto> File ''receptor'',
               [''data'', ''lig.pdbqt''] \<mapsto> File ''ligand'',
               [''pkg''] \<mapsto> Dir, [''pkg'', ''temp''] \<mapsto> Dir,
               [''pkg'', ''temp'', ''vina_results''] \<mapsto> Dir,
               [''pkg'', ''temp'', ''vina_results'', ''rec_lig_docked.pdbqt''] \<mapsto> File ''old poses'',
               [''pkg'', ''temp'', ''vina_results'', ''rec_lig_docked.log''] \<mapsto> File ''old log'',
               [''pkg'', ''temp'', ''vina_results'', ''rec_lig_docked.csv''] \<mapsto> File ''old table''],
      trace = []\<rparr>"

definition world_with_report :: world where
  \<comment> \<open>after a pocket prediction: the per-protein output directory holds the report\<close>
  "world_with_report =
     \<lparr>files = [[] \<mapsto> Dir, [''pkg''] \<mapsto> Dir, [''pkg'', ''temp''] \<mapsto> Dir,
               [''pkg'', ''temp'', ''p2rank_results''] \<mapsto> Dir,
               [''pkg'', ''temp'', ''p2rank_results'', ''1abc''] \<mapsto> Dir,
               example_csv_path \<mapsto> File ''name,rank'',
               [''saved''] \<mapsto> Dir,
               [''saved'', ''1abc''] \<mapsto> Dir,
               [''saved'', ''1abc'', ''stale.txt''] \<mapsto> File ''old''],
      trace = []\<rparr>"

definition example_prepared_protein :: Protein where
  "example_prepared_protein =
     \<lparr>file_path = [''data'', ''1abc.pdb''],
      pdb_path = Some [''pkg'', ''temp'', ''1abc_fixed.pdb''],
      pdbqt_path = Some [''pkg'', ''temp'', ''1abc.pdbqt''], ext = ''.pdb''\<rparr>"

definition world_with_prepared :: world where
  "world_with_prepared =
     \<lparr>files = [[] \<mapsto> Dir, [''pkg''] \<mapsto> Dir, [''pkg'', ''temp''] \<mapsto> Dir,
               [''pkg'', ''temp'', ''1abc.pdbqt''] \<mapsto> File ''ATOM charges'',
               [''saved''] \<mapsto> Dir],
      trace = []\<rparr>"

definition failing_process :: "arg list \<Rightarrow> path option \<Rightarrow> filesystem \<Rightarrow> proc" where
  \<comment> \<open>an external program that exits with status 1 and touches no file\<close>
  "failing_process cmd cwd fs = \<lparr>returncode = 1, stdout = [], stderr = ''error'', files_after = fs\<rparr>"
section \<open>Evaluation rules\<close>

lemmas text_eval = str_splitlines_def is_linebreak_def str_split_def str_strip_def is_space_def
  str_startswith_def str_lower_def lower_char_def
lemmas number_eval = py_int_def py_float_def split_sign_def scan_number_def scan_digits_def
  is_digit_def scan_exponent_def digits_val_def digit_val_def pow10_def
lemmas row_eval = is_header_def numeric_row_def data_row_def parse_row_def rows_after_header_def

section \<open>The docking table parser\<close>

lemma parse_row_length: "length tokens \<noteq> 4 \<Longrightarrow> parse_row tokens = None"
  by (auto simp: parse_row_def split: list.splits)

lemma parse_row_len4: "parse_row tokens = Some r \<Longrightarrow> length tokens = 4"
  using parse_row_length [of tokens] by (cases "length tokens = 4") simp_all

lemma scan_lines_found:
  "scan_lines True data ls = data @ List.map_filter data_row ls"
proof (induction ls arbitrary: data)
  case Nil
  show ?case by (simp add: )
next
  case (Cons l ls)
  show ?case
  proof (cases "data_row l")
    case None
    then show ?thesis
      using Cons.IH [of data]
      by (auto simp: data_row_def is_header_def numeric_row_def parse_row_length
           Let_def split: if_splits option.splits)
  next
    case (Some r)
    then show ?thesis
      using Cons.IH [of "data @ [r]"] Cons.IH [of data]
      by (auto simp: data_row_def is_header_def numeric_row_def parse_row_length
           Let_def dest: parse_row_len4 split: if_splits option.splits)
  qed
qed

lemma scan_lines_start:
  "scan_lines False data ls = data @ rows_after_header ls"
proof (induction ls arbitrary: data)
  case Nil
  show ?case by (simp add: rows_after_header_def)
next
  case (Cons l ls)
  show ?case
  proof (cases "is_header l")
    case True
    then show ?thesis
      by (simp add: rows_after_header_def scan_lines_found is_header_def)
  next
    case False
    then show ?thesis
      using Cons.IH [of data]
      by (simp add: rows_after_header_def is_header_def)
  qed
qed

lemma rows_after_header_split:
  assumes "\<forall>l\<in>set pre. \<not> is_header l" and "is_header h"
  shows "rows_after_header (pre @ h # body) = List.map_filter data_row body"
proof -
  have "dropWhile (\<lambda>l. \<not> is_header l) (pre @ h # body) = h # body"
    using assms by (simp add: dropWhile_append3)
  then show ?thesis by (simp add: rows_after_header_def)
qed

lemma rows_after_header_found:
  assumes "\<exists>h\<in>set pre. is_header h"
  shows "rows_after_header (pre @ post) = rows_after_header pre @ List.map_filter data_row post"
proof -
  from assms obtain a h b where pre: "pre = a @ h # b" and a: "\<forall>l\<in>set a. \<not> is_header l" and h: "is_header h"
    by (metis split_list_first_prop)
  have "rows_after_header ((a @ h # b) @ post) = List.map_filter data_row (b @ post)"
    using rows_after_header_split [OF a h, of "b @ post"] by simp
  moreover have "rows_after_header (a @ h # b) = List.map_filter data_row b"
    using rows_after_header_split [OF a h] by simp
  ultimately show ?thesis
    by (simp add: pre List.map_filter_def)
qed

lemma data_row_not_numeric: "numeric_row l = None \<Longrightarrow> data_row l = None"
  by (simp add: data_row_def)

text \<open>
  Claim C1. A transcript whose first header line is followed by lines of which exactly three
  are data rows parses to exactly those three poses, in the order of the file, with the
  numbers their tokens denote. A line after the header that does not consist of four numeric
  tokens is passed over: the result is the same as without it. A transcript with no data
  row after a header (or with no header) raises the error "no docking results".
\<close>

theorem C1_parse_output:
  "(vina_output self = Some out \<and> str_splitlines out = pre @ h # body
      \<and> (\<forall>l\<in>set pre. \<not> is_header l) \<and> is_header h
      \<and> List.map_filter data_row body = [p1, p2, p3]
      \<longrightarrow> VinaDocking_parse_output self = Inr [p1, p2, p3])
   \<and> (vina_output self = Some out \<and> vina_output self' = Some out'
      \<and> str_splitlines out = pre' @ l # post \<and> str_splitlines out' = pre' @ post
      \<and> (\<exists>h\<in>set pre'. is_header h) \<and> numeric_row l = None
      \<longrightarrow> VinaDocking_parse_output self = VinaDocking_parse_output self')
   \<and> (vina_output self = Some out \<and> rows_after_header (str_splitlines out) = []
      \<longrightarrow> VinaDocking_parse_output self = Inl (Exc ValueError NoDockingResults))"
proof (intro conjI impI)
  assume a: "vina_output self = Some out \<and> str_splitlines out = pre @ h # body
      \<and> (\<forall>l\<in>set pre. \<not> is_header l) \<and> is_header h
      \<and> List.map_filter data_row body = [p1, p2, p3]"
  then have "rows_after_header (str_splitlines out) = [p1, p2, p3]"
    using rows_after_header_split [of pre h body] by simp
  with a show "VinaDocking_parse_output self = Inr [p1, p2, p3]"
    by (simp add: VinaDocking_parse_output_def scan_lines_start [of "[]", simplified])
next
  assume b: "vina_output self = Some out \<and> vina_output self' = Some out'
      \<and> str_splitlines out = pre' @ l # post \<and> str_splitlines out' = pre' @ post
      \<and> (\<exists>h\<in>set pre'. is_header h) \<and> numeric_row l = None"
  then have "rows_after_header (pre' @ l # post) = rows_after_header (pre' @ post)"
    using rows_after_header_found [of pre' "l # post"] rows_after_header_found [of pre' post]
      data_row_not_numeric [of l]
    by (simp add: )
  with b show "VinaDocking_parse_output self = VinaDocking_parse_output self'"
    by (simp add: VinaDocking_parse_output_def scan_lines_start [of "[]", simplified])
next
  assume c: "vina_output self = Some out \<and> rows_after_header (str_splitlines out) = []"
  then show "VinaDocking_parse_output self = Inl (Exc ValueError NoDockingResults)"
    by (simp add: VinaDocking_parse_output_def scan_lines_start [of "[]", simplified])
qed

theorem C1_parse_output_witness:
  "VinaDocking_parse_output (example_docking\<lparr>vina_output := Some example_transcript\<rparr>) =
     Inr [\<lparr>mode = 1, affinity_kcal_mol = Finite (- (15 / 2)), rmsd_lb = Finite 0, rmsd_ub = Finite 0\<rparr>,
          \<lparr>mode = 2, affinity_kcal_mol = Finite (- (71 / 10)), rmsd_lb = Finite (5 / 4),
            rmsd_ub = Finite (5 / 2)\<rparr>,
          \<lparr>mode = 3, affinity_kcal_mol = Finite (- (34 / 5)), rmsd_lb = Finite 3,
            rmsd_ub = Finite (19 / 4)\<rparr>]
   \<and> VinaDocking_parse_output (example_docking\<lparr>vina_output := Some example_transcript\<rparr>) =
     VinaDocking_parse_output (example_docking\<lparr>vina_output := Some example_transcript_clean\<rparr>)
   \<and> VinaDocking_parse_output (example_docking\<lparr>vina_output := Some ''Performing search ... failed''\<rparr>) =
     Inl (Exc ValueError NoDockingResults)"
proof -
  let ?pre = "[''Performing search ... done.'']"
  let ?h = "''mode |   affinity | dist from best mode''"
  let ?top = "[''     | (kcal/mol) | rmsd l.b.| rmsd u.b.'',
               ''-----+------------+----------+----------'',
               ''   1       -7.5      0.000      0.000'',
               ''   2       -7.1      1.250      2.5'']"
  let ?junk = "''   x       -7.0      1.0      2.0''"
  let ?bottom = "[''   3       -6.8      3.0     4.75'', ''Writing output ... done.'']"
  let ?p1 = "\<lparr>mode = 1, affinity_kcal_mol = Finite (- (15 / 2)), rmsd_lb = Finite 0,
              rmsd_ub = Finite 0\<rparr>"
  let ?p2 = "\<lparr>mode = 2, affinity_kcal_mol = Finite (- (71 / 10)), rmsd_lb = Finite (5 / 4),
              rmsd_ub = Finite (5 / 2)\<rparr>"
  let ?p3 = "\<lparr>mode = 3, affinity_kcal_mol = Finite (- (34 / 5)), rmsd_lb = Finite 3,
              rmsd_ub = Finite (19 / 4)\<rparr>"
  let ?self = "example_docking\<lparr>vina_output := Some example_transcript\<rparr>"
  let ?self' = "example_docking\<lparr>vina_output := Some example_transcript_clean\<rparr>"
  let ?none = "example_docking\<lparr>vina_output := Some ''Performing search ... failed''\<rparr>"
  have lines: "str_splitlines example_transcript = ?pre @ ?h # (?top @ ?junk # ?bottom)"
    by (simp add: example_transcript_def text_eval)
  have lines': "str_splitlines example_transcript_clean = ?pre @ ?h # (?top @ ?bottom)"
    by (simp add: example_transcript_clean_def text_eval)
  have pre: "\<forall>l\<in>set ?pre. \<not> is_header l"
    by (simp add: row_eval text_eval)
  have h: "is_header ?h"
    by (simp add: row_eval text_eval)
  have rows: "List.map_filter data_row (?top @ ?junk # ?bottom) = [?p1, ?p2, ?p3]"
    by (simp add: row_eval text_eval number_eval)
  have junk: "numeric_row ?junk = None"
    by (simp add: row_eval text_eval number_eval)
  have none: "rows_after_header (str_splitlines ''Performing search ... failed'') = []"
    by (simp add: row_eval text_eval)
  have a: "VinaDocking_parse_output ?self = Inr [?p1, ?p2, ?p3]"
    using C1_parse_output [where self = ?self and out = example_transcript and pre = ?pre
        and h = ?h and body = "?top @ ?junk # ?bottom" and ?p1.0 = ?p1 and ?p2.0 = ?p2
        and ?p3.0 = ?p3] lines pre h rows
    by simp
  have b: "VinaDocking_parse_output ?self = VinaDocking_parse_output ?self'"
    using C1_parse_output [where self = ?self and out = example_transcript and self' = ?self'
        and out' = example_transcript_clean and pre' = "?pre @ ?h # ?top" and l = ?junk
        and post = ?bottom] lines lines' h junk
    by simp
  have c: "VinaDocking_parse_output ?none = Inl (Exc ValueError NoDockingResults)"
    using C1_parse_output [where self = ?none and out = "''Performing search ... failed''"] none
    by simp
  from a b c show ?thesis by simp
qed

section \<open>The pocket report parser\<close>

lemmas csv_eval = example_csv_reader_def DictReader_def dict_row_def dict_get_def coordinate_def
  row_center_def

lemma parse_rows_ok:
  "map row_center rows = map Inr centers \<Longrightarrow>
   parse_rows idx pockets rows =
     Inr (pockets @ map (\<lambda>(i, xyz). \<lparr>rank = i, center = xyz\<rparr>) (List.enumerate idx centers))"
proof (induction rows arbitrary: centers idx pockets)
  case Nil
  then show ?case by simp
next
  case (Cons r rows)
  then obtain xyz rest where c: "centers = xyz # rest" "row_center r = Inr xyz"
      "map row_center rows = map Inr rest"
    by (cases centers) auto
  from Cons.IH [OF c(3), of "Suc idx" "pockets @ [\<lparr>rank = idx, center = xyz\<rparr>]"] c(1,2)
  show ?case by simp
qed

lemma parse_rows_bad:
  "map row_center good = map Inr centers \<Longrightarrow> row_center bad = Inl c \<Longrightarrow>
   parse_rows idx pockets (good @ bad # rest) =
     Inl (Exc ValueError (ErrorParsingRow (idx + length good) c))"
proof (induction good arbitrary: centers idx pockets)
  case Nil
  then show ?case by simp
next
  case (Cons r good)
  then obtain xyz cs where c: "centers = xyz # cs" "row_center r = Inr xyz"
      "map row_center good = map Inr cs"
    by (cases centers) auto
  from Cons.IH [OF c(3) Cons.prems(2), of "Suc idx" "pockets @ [\<lparr>rank = idx, center = xyz\<rparr>]"] c(2)
  show ?case by simp
qed

lemma C2_rows_ok:
  assumes "csv_path = output_dir self @ [path_name (protein_path self) @ ''_predictions.csv'']"
    and "files w csv_path = Some (File content)"
    and "rows = DictReader (csv_reader e content)"
    and "rows \<noteq> []" and "map row_center rows = map Inr centers"
  shows "fst (PocketFinder_parse_output e self w) =
           Inr (map (\<lambda>(i, xyz). \<lparr>rank = i, center = xyz\<rparr>) (List.enumerate 1 centers))"
proof -
  have p: "parse_rows 1 [] rows =
      Inr (map (\<lambda>(i, xyz). \<lparr>rank = i, center = xyz\<rparr>) (List.enumerate 1 centers))"
    using parse_rows_ok [of rows centers 1 "[]"] assms(5) by simp
  from assms(5) have "length centers = length rows" by (metis length_map)
  with assms(4) have "List.enumerate 1 centers \<noteq> []" by (cases centers) auto
  with p show ?thesis
    using assms(1-3) by (simp add: PocketFinder_parse_output_def is_file_def Let_def)
qed

text \<open>
  Claim C2. For a prediction file whose rows all have convertible coordinates, the finder
  returns one pocket per row, ranked 1, 2, ... in the order of the rows, with the centers the
  rows give. When a row's coordinates cannot be converted, a \<^verbatim>\<open>ValueError\<close> is raised whose
  message carries the index of the first such row (the wrapped text "Error parsing coordinates
  at row idx"). With no data row at all a \<^verbatim>\<open>ValueError\<close> "no pocket centers" is raised.
\<close>

theorem C2_pocket_rows:
  assumes "csv_path = output_dir self @ [path_name (protein_path self) @ ''_predictions.csv'']"
    and "files w csv_path = Some (File content)"
    and "rows = DictReader (csv_reader e content)"
  shows "(rows \<noteq> [] \<and> map row_center rows = map Inr centers \<longrightarrow>
           fst (PocketFinder_parse_output e self w) =
             Inr (map (\<lambda>(i, xyz). \<lparr>rank = i, center = xyz\<rparr>) (List.enumerate 1 centers)))
       \<and> (rows = good @ bad # rest \<and> map row_center good = map Inr centers
            \<and> row_center bad = Inl c \<longrightarrow>
           fst (PocketFinder_parse_output e self w) =
             Inl (Exc ValueError (FailedToReadCsv (ErrorParsingRow (length good + 1) c))))
       \<and> (rows = [] \<longrightarrow>
           fst (PocketFinder_parse_output e self w) =
             Inl (Exc ValueError (NoPocketCenters csv_path)))"
proof (intro conjI impI)
  assume a: "rows \<noteq> [] \<and> map row_center rows = map Inr centers"
  then show "fst (PocketFinder_parse_output e self w) =
             Inr (map (\<lambda>(i, xyz). \<lparr>rank = i, center = xyz\<rparr>) (List.enumerate 1 centers))"
    using C2_rows_ok [OF assms, of centers] by simp
next
  assume b: "rows = good @ bad # rest \<and> map row_center good = map Inr centers
            \<and> row_center bad = Inl c"
  then have "parse_rows 1 [] rows = Inl (Exc ValueError (ErrorParsingRow (1 + length good) c))"
    using parse_rows_bad [of good centers bad c 1 "[]" rest] by simp
  then show "fst (PocketFinder_parse_output e self w) =
             Inl (Exc ValueError (FailedToReadCsv (ErrorParsingRow (length good + 1) c)))"
    using assms by (simp add: PocketFinder_parse_output_def is_file_def Let_def)
next
  assume "rows = []"
  then show "fst (PocketFinder_parse_output e self w) =
      Inl (Exc ValueError (NoPocketCenters csv_path))"
    using assms by (simp add: PocketFinder_parse_output_def is_file_def Let_def)
qed


theorem C2_pocket_rows_witness:
  "fst (PocketFinder_parse_output example_env example_pocket_finder (world_with_csv example_csv)) =
     Inr [\<lparr>rank = 1, center = (Finite (21 / 2), Finite (- (13 / 4)), Finite 7)\<rparr>,
          \<lparr>rank = 2, center = (Finite 10, Finite (1 / 2), Finite (- 2))\<rparr>]
   \<and> fst (PocketFinder_parse_output example_env example_pocket_finder (world_with_csv example_csv_bad)) =
     Inl (Exc ValueError (FailedToReadCsv (ErrorParsingRow 2 (CouldNotConvert ''n/a''))))
   \<and> fst (PocketFinder_parse_output example_env example_pocket_finder (world_with_csv example_csv_empty)) =
     Inl (Exc ValueError (NoPocketCenters example_csv_path))"
proof -
  let ?names = "[''name     '', ''  rank'', ''   center_x'', ''   center_y'', ''   center_z'']"
  let ?r1 = "dict_row ?names [''pocket1  '', ''     1'', ''    10.5'', ''   -3.25'', ''      7'']"
  let ?r2 = "dict_row ?names [''pocket2  '', ''     2'', ''     1e1'', ''     0.5'', ''    -2.0'']"
  let ?b2 = "dict_row ?names [''pocket2  '', ''     2'', ''     n/a'', ''     0.5'', ''    -2.0'']"
  let ?c1 = "(Finite (21 / 2), Finite (- (13 / 4)), Finite 7)"
  let ?c2 = "(Finite 10, Finite (1 / 2), Finite (- 2))"
  have path: "example_csv_path =
      output_dir example_pocket_finder @ [path_name (protein_path example_pocket_finder) @ ''_predictions.csv'']"
    by (simp add: example_csv_path_def example_pocket_finder_def path_name_def)
  have fl: "files (world_with_csv content) example_csv_path = Some (File content)" for content
    by (simp add: world_with_csv_def)
  have rd: "csv_reader example_env = example_csv_reader"
    by (simp add: example_env_def)
  have good: "DictReader (example_csv_reader example_csv) = [?r1, ?r2]"
    by (simp add: example_csv_def example_csv_reader_def DictReader_def text_eval)
  have bad: "DictReader (example_csv_reader example_csv_bad) = [?r1] @ ?b2 # []"
    by (simp add: example_csv_bad_def example_csv_reader_def DictReader_def text_eval)
  have empty: "DictReader (example_csv_reader example_csv_empty) = []"
    by (simp add: example_csv_empty_def example_csv_reader_def DictReader_def text_eval)
  have c1: "row_center ?r1 = Inr ?c1"
    by (simp add: csv_eval text_eval number_eval)
  have c2: "row_center ?r2 = Inr ?c2"
    by (simp add: csv_eval text_eval number_eval)
  have cb: "row_center ?b2 = Inl (CouldNotConvert ''n/a'')"
    by (simp add: csv_eval text_eval number_eval)
  have a: "fst (PocketFinder_parse_output example_env example_pocket_finder (world_with_csv example_csv)) =
     Inr [\<lparr>rank = 1, center = ?c1\<rparr>, \<lparr>rank = 2, center = ?c2\<rparr>]"
    using C2_pocket_rows [OF path fl, where e = example_env and rows = "[?r1, ?r2]"
        and centers = "[?c1, ?c2]"] rd good c1 c2
    by (simp add: enumerate_simps)
  have b: "fst (PocketFinder_parse_output example_env example_pocket_finder (world_with_csv example_csv_bad)) =
     Inl (Exc ValueError (FailedToReadCsv (ErrorParsingRow 2 (CouldNotConvert ''n/a''))))"
    using C2_pocket_rows [OF path fl, where e = example_env and rows = "[?r1] @ ?b2 # []"
        and good = "[?r1]" and bad = ?b2 and rest = "[]" and centers = "[?c1]"
        and c = "CouldNotConvert ''n/a''"] rd bad c1 cb
    by simp
  have c: "fst (PocketFinder_parse_output example_env example_pocket_finder (world_with_csv example_csv_empty)) =
     Inl (Exc ValueError (NoPocketCenters example_csv_path))"
    using C2_pocket_rows [OF path fl, where e = example_env and rows = "[]"] rd empty
    by simp
  from a b c show ?thesis by simp
qed

lemma coordinate_absent:
  "row key = None \<Longrightarrow> row (''   '' @ key) = None \<Longrightarrow> coordinate row key = Inr (Finite 0)"
  by (simp add: coordinate_def dict_get_def text_eval number_eval)

lemma coordinate_fails:
  assumes "coordinate row key = Inl c"
  shows "\<exists>cell. (row key = Some cell \<or> row key = None \<and> row (''   '' @ key) = Some cell)
            \<and> (cell = None \<and> c = NoneHasNoStrip
                \<or> (\<exists>s. cell = Some s \<and> py_float (str_strip s) = None
                        \<and> c = CouldNotConvert (str_strip s)))"
proof (cases "row key")
  case None
  note k = None
  show ?thesis
  proof (cases "row (''   '' @ key)")
    case None
    with k assms show ?thesis using coordinate_absent [of row key] by simp
  next
    case (Some cell)
    with k assms show ?thesis
      by (auto simp: coordinate_def dict_get_def split: option.splits)
  qed
next
  case (Some cell)
  with assms show ?thesis
    by (auto simp: coordinate_def dict_get_def split: option.splits)
qed

text \<open>
  Claim C9. A coordinate whose column is absent from the row under both spellings of its name
  defaults to 0.0. A row raises only when, for some coordinate, the cell that is looked up is
  present and is either \<^verbatim>\<open>None\<close> or text that \<^verbatim>\<open>float\<close> rejects. A file whose rows have
  none of the center columns therefore parses to one pocket per row, each centered at the
  origin.
\<close>

theorem C9_absent_center_column:
  "(row key = None \<and> row (''   '' @ key) = None \<longrightarrow> coordinate row key = Inr (Finite 0))
   \<and> (row_center row = Inl c \<longrightarrow>
        (\<exists>key\<in>set [''center_x'', ''center_y'', ''center_z'']. \<exists>cell.
            (row key = Some cell \<or> row key = None \<and> row (''   '' @ key) = Some cell)
            \<and> (cell = None \<and> c = NoneHasNoStrip
                \<or> (\<exists>s. cell = Some s \<and> py_float (str_strip s) = None
                        \<and> c = CouldNotConvert (str_strip s)))))
   \<and> (csv_path = output_dir self @ [path_name (protein_path self) @ ''_predictions.csv'']
        \<and> files w csv_path = Some (File content)
        \<and> rows = DictReader (csv_reader e content) \<and> rows \<noteq> []
        \<and> (\<forall>r\<in>set rows. \<forall>key\<in>set [''center_x'', ''center_y'', ''center_z''].
               r key = None \<and> r (''   '' @ key) = None) \<longrightarrow>
        fst (PocketFinder_parse_output e self w) =
          Inr (map (\<lambda>(i, xyz). \<lparr>rank = i, center = xyz\<rparr>)
                 (List.enumerate 1 (replicate (length rows) (Finite 0, Finite 0, Finite 0)))))"
proof (intro conjI impI)
  assume "row key = None \<and> row (''   '' @ key) = None"
  then show "coordinate row key = Inr (Finite 0)" by (simp add: coordinate_absent)
next
  assume c: "row_center row = Inl c"
  then consider "coordinate row ''center_x'' = Inl c" | "coordinate row ''center_y'' = Inl c"
    | "coordinate row ''center_z'' = Inl c"
    by (auto simp: row_center_def split: sum.splits)
  then show "\<exists>key\<in>set [''center_x'', ''center_y'', ''center_z'']. \<exists>cell.
            (row key = Some cell \<or> row key = None \<and> row (''   '' @ key) = Some cell)
            \<and> (cell = None \<and> c = NoneHasNoStrip
                \<or> (\<exists>s. cell = Some s \<and> py_float (str_strip s) = None
                        \<and> c = CouldNotConvert (str_strip s)))"
  proof cases
    case 1
    from coordinate_fails [OF 1] show ?thesis by (intro bexI [of _ "''center_x''"]) simp_all
  next
    case 2
    from coordinate_fails [OF 2] show ?thesis by (intro bexI [of _ "''center_y''"]) simp_all
  next
    case 3
    from coordinate_fails [OF 3] show ?thesis by (intro bexI [of _ "''center_z''"]) simp_all
  qed
next
  assume a: "csv_path = output_dir self @ [path_name (protein_path self) @ ''_predictions.csv'']
        \<and> files w csv_path = Some (File content)
        \<and> rows = DictReader (csv_reader e content) \<and> rows \<noteq> []
        \<and> (\<forall>r\<in>set rows. \<forall>key\<in>set [''center_x'', ''center_y'', ''center_z''].
               r key = None \<and> r (''   '' @ key) = None)"
  let ?zero = "(Finite 0, Finite 0, Finite 0)"
  from a have p: "csv_path = output_dir self @ [path_name (protein_path self) @ ''_predictions.csv'']"
    and f: "files w csv_path = Some (File content)"
    and r: "rows = DictReader (csv_reader e content)" and ne: "rows \<noteq> []"
    by blast+
  have "\<forall>r\<in>set rows. row_center r = Inr ?zero"
    using a by (simp add: row_center_def coordinate_absent)
  then have m: "map row_center rows = map Inr (replicate (length rows) ?zero)"
    by (induction rows) simp_all
  from C2_rows_ok [OF p f r ne m]
  show "fst (PocketFinder_parse_output e self w) =
          Inr (map (\<lambda>(i, xyz). \<lparr>rank = i, center = xyz\<rparr>)
                 (List.enumerate 1 (replicate (length rows) ?zero)))" .
qed


theorem C9_absent_center_column_witness:
  "coordinate (dict_row [''name'', ''rank'', ''score''] [''pocket1'', ''1'', ''0.9'']) ''center_x''
     = Inr (Finite 0)
   \<and> (\<exists>key\<in>set [''center_x'', ''center_y'', ''center_z'']. \<exists>cell.
         (dict_row [''name'', ''   center_x''] [''pocket2'', ''     n/a''] key = Some cell
          \<or> dict_row [''name'', ''   center_x''] [''pocket2'', ''     n/a''] key = None
            \<and> dict_row [''name'', ''   center_x''] [''pocket2'', ''     n/a''] (''   '' @ key) = Some cell)
         \<and> (cell = None \<and> CouldNotConvert ''n/a'' = NoneHasNoStrip
             \<or> (\<exists>s. cell = Some s \<and> py_float (str_strip s) = None
                     \<and> CouldNotConvert ''n/a'' = CouldNotConvert (str_strip s))))
   \<and> fst (PocketFinder_parse_output example_env example_pocket_finder
            (world_with_csv example_csv_no_centers)) =
       Inr [\<lparr>rank = 1, center = (Finite 0, Finite 0, Finite 0)\<rparr>,
            \<lparr>rank = 2, center = (Finite 0, Finite 0, Finite 0)\<rparr>]"
proof -
  let ?names = "[''name'', ''rank'', ''score'']"
  let ?r1 = "dict_row ?names [''pocket1'', ''1'', ''0.9'']"
  let ?r2 = "dict_row ?names [''pocket2'', ''2'', ''0.4'']"
  let ?bad = "dict_row [''name'', ''   center_x''] [''pocket2'', ''     n/a'']"
  have absent: "?r1 ''center_x'' = None \<and> ?r1 (''   '' @ ''center_x'') = None"
    by (simp add: dict_row_def)
  have bad: "row_center ?bad = Inl (CouldNotConvert ''n/a'')"
    by (simp add: csv_eval text_eval number_eval)
  have path: "example_csv_path =
      output_dir example_pocket_finder @ [path_name (protein_path example_pocket_finder) @ ''_predictions.csv'']"
    by (simp add: example_csv_path_def example_pocket_finder_def path_name_def)
  have fl: "files (world_with_csv example_csv_no_centers) example_csv_path
      = Some (File example_csv_no_centers)"
    by (simp add: world_with_csv_def)
  have rows: "[?r1, ?r2] = DictReader (csv_reader example_env example_csv_no_centers)"
    by (simp add: example_env_def example_csv_no_centers_def example_csv_reader_def
        DictReader_def text_eval)
  have none: "\<forall>r\<in>set [?r1, ?r2]. \<forall>key\<in>set [''center_x'', ''center_y'', ''center_z''].
      r key = None \<and> r (''   '' @ key) = None"
    by (simp add: dict_row_def)
  have a: "coordinate ?r1 ''center_x'' = Inr (Finite 0)"
    by (rule C9_absent_center_column [where row = ?r1 and key = "''center_x''",
          THEN conjunct1, THEN mp, OF absent])
  have b: "\<exists>key\<in>set [''center_x'', ''center_y'', ''center_z'']. \<exists>cell.
         (?bad key = Some cell \<or> ?bad key = None \<and> ?bad (''   '' @ key) = Some cell)
         \<and> (cell = None \<and> CouldNotConvert ''n/a'' = NoneHasNoStrip
             \<or> (\<exists>s. cell = Some s \<and> py_float (str_strip s) = None
                     \<and> CouldNotConvert ''n/a'' = CouldNotConvert (str_strip s)))"
    by (rule C9_absent_center_column [where row = ?bad and c = "CouldNotConvert ''n/a''",
          THEN conjunct2, THEN conjunct1, THEN mp, OF bad])
  have ne: "[?r1, ?r2] \<noteq> []" by simp
  have c: "fst (PocketFinder_parse_output example_env example_pocket_finder
            (world_with_csv example_csv_no_centers)) =
       Inr [\<lparr>rank = 1, center = (Finite 0, Finite 0, Finite 0)\<rparr>,
            \<lparr>rank = 2, center = (Finite 0, Finite 0, Finite 0)\<rparr>]"
    using C9_absent_center_column [where self = example_pocket_finder
        and w = "world_with_csv example_csv_no_centers" and csv_path = example_csv_path
        and content = example_csv_no_centers and e = example_env and rows = "[?r1, ?r2]",
        THEN conjunct2, THEN conjunct2, THEN mp,
        OF conjI [OF path conjI [OF fl conjI [OF rows conjI [OF ne none]]]]]
    by (simp only: list.size enumerate_simps replicate.simps list.map prod.case
          One_nat_def add_Suc add_0 plus_nat.add_0 mult_Suc mult_0 numeral_2_eq_2)
  from a b c show ?thesis by (intro conjI)
qed

section \<open>Constructors and preparation\<close>

lemmas char_eval = char_of_def bit_Suc_0_iff
lemmas path_eval = path_name_def path_suffix_def path_stem_def name_suffix_def name_stem_def
  rfind_dot_def path_parent_def
lemmas world_eval = resolve_def is_file_def path_exists_def is_dir_def log_event_def mkdir_def
  mkdir_parents_def write_file_def run_process_def

text \<open>
  Claim C4. Each of the three constructors succeeds exactly when the path names a regular
  file and its lower-cased extension is in the component's allow-list. When the file is
  missing the error is \<^verbatim>\<open>FileNotFoundError\<close> (the existence check comes first, so this is
  also the error when the extension is wrong as well); when the file exists and the
  extension is not allowed the error is \<^verbatim>\<open>ValueError\<close>.
\<close>

theorem C4_constructor_validation:
  "((\<exists>obj. fst (Protein_init p w) = Inr obj) \<longleftrightarrow>
       regular_file (files w) p \<and> str_lower (path_suffix p) \<in> set Protein_SUPPORTED_INPUTS)
   \<and> (\<not> regular_file (files w) p \<longrightarrow>
        fst (Protein_init p w) = Inl (Exc FileNotFoundError (ProteinNotFound p)))
   \<and> (regular_file (files w) p \<and> str_lower (path_suffix p) \<notin> set Protein_SUPPORTED_INPUTS \<longrightarrow>
        fst (Protein_init p w) = Inl (Exc ValueError (UnsupportedFormat (str_lower (path_suffix p)))))
   \<and> ((\<exists>obj. fst (Ligand_init p w) = Inr obj) \<longleftrightarrow>
       regular_file (files w) p
       \<and> lstrip_chars (str_lower (path_suffix p)) ''.'' \<in> set Ligand_SUPPORTED_INPUTS)
   \<and> (\<not> regular_file (files w) p \<longrightarrow>
        fst (Ligand_init p w) = Inl (Exc FileNotFoundError (LigandNotFound p)))
   \<and> (regular_file (files w) p
        \<and> lstrip_chars (str_lower (path_suffix p)) ''.'' \<notin> set Ligand_SUPPORTED_INPUTS \<longrightarrow>
        fst (Ligand_init p w)
          = Inl (Exc ValueError (UnsupportedFormat (lstrip_chars (str_lower (path_suffix p)) ''.''))))
   \<and> ((\<exists>obj. fst (PocketFinder_init e p t w) = Inr obj) \<longleftrightarrow>
       regular_file (files w) p \<and> str_lower (path_suffix p) \<in> set [''.pdb''])
   \<and> (\<not> regular_file (files w) p \<longrightarrow>
        fst (PocketFinder_init e p t w) = Inl (Exc FileNotFoundError (PdbNotFound p)))
   \<and> (regular_file (files w) p \<and> str_lower (path_suffix p) \<notin> set [''.pdb''] \<longrightarrow>
        fst (PocketFinder_init e p t w) = Inl (Exc ValueError OnlyPdbSupported))"
proof -
  have pr: "fst (Protein_init p w) =
      (if \<not> regular_file (files w) p then Inl (Exc FileNotFoundError (ProteinNotFound p))
       else if str_lower (path_suffix p) \<notin> set Protein_SUPPORTED_INPUTS
         then Inl (Exc ValueError (UnsupportedFormat (str_lower (path_suffix p))))
       else Inr \<lparr>file_path = p, pdb_path = None, pdbqt_path = None, ext = str_lower (path_suffix p)\<rparr>)"
    by (simp add: Protein_init_def resolve_def is_file_def log_event_def regular_file_def Let_def
        split: option.splits node.splits)
  have li: "fst (Ligand_init p w) =
      (if \<not> regular_file (files w) p then Inl (Exc FileNotFoundError (LigandNotFound p))
       else if lstrip_chars (str_lower (path_suffix p)) ''.'' \<notin> set Ligand_SUPPORTED_INPUTS
         then Inl (Exc ValueError (UnsupportedFormat (lstrip_chars (str_lower (path_suffix p)) ''.'')))
       else Inr \<lparr>ligand_file_path = p, mol2_path = None, ligand_pdbqt_path = None,
                 input_format = lstrip_chars (str_lower (path_suffix p)) ''.''\<rparr>)"
    by (simp add: Ligand_init_def resolve_def is_file_def log_event_def regular_file_def Let_def
        split: option.splits node.splits)
  have pf: "fst (PocketFinder_init e p t w) =
      (if \<not> regular_file (files w) p then Inl (Exc FileNotFoundError (PdbNotFound p))
       else if str_lower (path_suffix p) \<noteq> ''.pdb'' then Inl (Exc ValueError OnlyPdbSupported)
       else Inr \<lparr>protein_path = p,
                 output_dir = pkg_dir e @ [''temp'', ''p2rank_results''] @ [path_stem p],
                 threads = t\<rparr>)"
    by (simp add: PocketFinder_init_def resolve_def is_file_def log_event_def regular_file_def Let_def
        split: option.splits node.splits)
  show ?thesis
    unfolding pr li pf by simp
qed

theorem C4_constructor_validation_witness:
  "(\<exists>obj. fst (Protein_init [''data'', ''2xyz.ENT''] world_with_inputs) = Inr obj)
   \<and> fst (Protein_init [''data'', ''missing.pdb''] world_with_inputs)
       = Inl (Exc FileNotFoundError (ProteinNotFound [''data'', ''missing.pdb'']))
   \<and> fst (Protein_init [''data'', ''notes.txt''] world_with_inputs)
       = Inl (Exc ValueError (UnsupportedFormat ''.txt''))
   \<and> (\<exists>obj. fst (Ligand_init [''data'', ''lig.SDF''] world_with_inputs) = Inr obj)
   \<and> fst (Ligand_init [''data'', ''missing.sdf''] world_with_inputs)
       = Inl (Exc FileNotFoundError (LigandNotFound [''data'', ''missing.sdf'']))
   \<and> fst (Ligand_init [''data'', ''notes.txt''] world_with_inputs)
       = Inl (Exc ValueError (UnsupportedFormat ''txt''))
   \<and> (\<exists>obj. fst (PocketFinder_init example_env [''data'', ''1abc.pdb''] (PyInt 4) world_with_inputs)
         = Inr obj)
   \<and> fst (PocketFinder_init example_env [''data'', ''missing.pdb''] (PyInt 4) world_with_inputs)
       = Inl (Exc FileNotFoundError (PdbNotFound [''data'', ''missing.pdb'']))
   \<and> fst (PocketFinder_init example_env [''data'', ''2xyz.ENT''] (PyInt 4) world_with_inputs)
       = Inl (Exc ValueError OnlyPdbSupported)"
proof -
  let ?w = world_with_inputs
  have ent: "regular_file (files ?w) [''data'', ''2xyz.ENT'']"
    and pdb: "regular_file (files ?w) [''data'', ''1abc.pdb'']"
    and sdf: "regular_file (files ?w) [''data'', ''lig.SDF'']"
    and tx: "regular_file (files ?w) [''data'', ''notes.txt'']"
    and nop: "\<not> regular_file (files ?w) [''data'', ''missing.pdb'']"
    and nos: "\<not> regular_file (files ?w) [''data'', ''missing.sdf'']"
    by (simp_all add: world_with_inputs_def regular_file_def)
  have s_ent: "str_lower (path_suffix [''data'', ''2xyz.ENT'']) = ''.ent''"
    and s_pdb: "str_lower (path_suffix [''data'', ''1abc.pdb'']) = ''.pdb''"
    and s_sdf: "str_lower (path_suffix [''data'', ''lig.SDF'']) = ''.sdf''"
    and s_txt: "str_lower (path_suffix [''data'', ''notes.txt'']) = ''.txt''"
    by (simp_all add: path_eval text_eval char_eval)
  show ?thesis
    using C4_constructor_validation [of "[''data'', ''2xyz.ENT'']" ?w example_env "PyInt 4"]
      C4_constructor_validation [of "[''data'', ''missing.pdb'']" ?w example_env "PyInt 4"]
      C4_constructor_validation [of "[''data'', ''notes.txt'']" ?w example_env "PyInt 4"]
      C4_constructor_validation [of "[''data'', ''lig.SDF'']" ?w example_env "PyInt 4"]
      C4_constructor_validation [of "[''data'', ''missing.sdf'']" ?w example_env "PyInt 4"]
      C4_constructor_validation [of "[''data'', ''1abc.pdb'']" ?w example_env "PyInt 4"]
      ent pdb sdf tx nop nos
    by (simp add: s_ent s_pdb s_sdf s_txt Protein_SUPPORTED_INPUTS_def Ligand_SUPPORTED_INPUTS_def
        lstrip_chars_def)
qed

text \<open>
  Claim C5, as stated, fails: the constructor resolves the receptor and ligand paths, which
  consults the file system, before it validates the geometry. With a center of two entries
  the validation error is raised after those two accesses.
\<close>

theorem C5_counterexample:
  "fst (VinaDocking_init example_env [''data'', ''rec.pdbqt''] [''data'', ''lig.pdbqt'']
          (PyTuple [PyInt 1, PyInt 2]) (PyTuple [PyInt 20, PyInt 20, PyInt 20])
          (PyInt 8) (PyInt 9) (PyInt 4) PyNone \<lparr>files = Map.empty, trace = []\<rparr>)
     = Inl (Exc ValueError CenterNot3Tuple)
   \<and> trace (snd (VinaDocking_init example_env [''data'', ''rec.pdbqt''] [''data'', ''lig.pdbqt'']
          (PyTuple [PyInt 1, PyInt 2]) (PyTuple [PyInt 20, PyInt 20, PyInt 20])
          (PyInt 8) (PyInt 9) (PyInt 4) PyNone \<lparr>files = Map.empty, trace = []\<rparr>))
     = [Resolve [''data'', ''rec.pdbqt''], Resolve [''data'', ''lig.pdbqt'']]"
  by (simp add: VinaDocking_init_def VinaDocking_validate_inputs_def is_3tuple_def world_eval)

text \<open>
  Claim C5, amended. When center or size is not a 3-tuple or has an entry that is not a
  number, the constructor raises the validation error (\<^verbatim>\<open>ValueError\<close> or \<^verbatim>\<open>TypeError\<close>)
  before the existence checks, before the results directory is created and before any
  subprocess: no file is changed, and the only accesses recorded are the two path
  resolutions that precede the validation.
\<close>

theorem C5_validation_before_checks:
  "\<not> valid_geometry c s \<longrightarrow>
     (\<exists>x. VinaDocking_init e r l c s exh modes cpus sd w
            = (Inl x, w\<lparr>trace := trace w @ [Resolve r, Resolve l]\<rparr>)
          \<and> x \<in> {Exc ValueError CenterNot3Tuple, Exc ValueError SizeNot3Tuple,
                   Exc TypeError GridValuesNotNumeric})"
proof
  assume "\<not> valid_geometry c s"
  then have "\<exists>x. VinaDocking_validate_inputs c s = Some x
      \<and> x \<in> {Exc ValueError CenterNot3Tuple, Exc ValueError SizeNot3Tuple,
                   Exc TypeError GridValuesNotNumeric}"
    by (simp add: valid_geometry_def VinaDocking_validate_inputs_def list_ex_iff list_all_iff)
  then obtain x where x: "VinaDocking_validate_inputs c s = Some x"
    and k: "x \<in> {Exc ValueError CenterNot3Tuple, Exc ValueError SizeNot3Tuple,
                   Exc TypeError GridValuesNotNumeric}"
    by blast
  have "VinaDocking_init e r l c s exh modes cpus sd w
            = (Inl x, w\<lparr>trace := trace w @ [Resolve r, Resolve l]\<rparr>)"
    using x by (simp add: VinaDocking_init_def resolve_def log_event_def)
  with k show "\<exists>x. VinaDocking_init e r l c s exh modes cpus sd w
            = (Inl x, w\<lparr>trace := trace w @ [Resolve r, Resolve l]\<rparr>)
          \<and> x \<in> {Exc ValueError CenterNot3Tuple, Exc ValueError SizeNot3Tuple,
                   Exc TypeError GridValuesNotNumeric}"
    by blast
qed

theorem C5_validation_before_checks_witness:
  "\<exists>x. VinaDocking_init example_env [''data'', ''rec.pdbqt''] [''data'', ''lig.pdbqt'']
          (PyTuple [PyInt 1, PyInt 2, PyStr ''3'']) (PyTuple [PyInt 20, PyInt 20, PyInt 20])
          (PyInt 8) (PyInt 9) (PyInt 4) PyNone world_with_inputs
        = (Inl x, world_with_inputs\<lparr>trace := trace world_with_inputs
              @ [Resolve [''data'', ''rec.pdbqt''], Resolve [''data'', ''lig.pdbqt'']]\<rparr>)
      \<and> x \<in> {Exc ValueError CenterNot3Tuple, Exc ValueError SizeNot3Tuple,
               Exc TypeError GridValuesNotNumeric}"
proof -
  have "\<not> valid_geometry (PyTuple [PyInt 1, PyInt 2, PyStr ''3''])
            (PyTuple [PyInt 20, PyInt 20, PyInt 20])"
    by (simp add: valid_geometry_def is_3tuple_def tuple_items_def is_number_def)
  then show ?thesis
    by (rule C5_validation_before_checks [THEN mp])
qed

text \<open>
  Claim C6, as stated, fails twice. The field \<^verbatim>\<open>mol2_path\<close> is assigned before the forcefield
  is checked, so a rejected call does change the object; and the empty string, whose
  lower-cased value is not in the allow-list, is not rejected at all, because the check is
  guarded by \<^verbatim>\<open>if minimize:\<close>.
\<close>

theorem C6_counterexample:
  "fst (Ligand_init [''data'', ''lig.SDF''] world_with_inputs) = Inr example_ligand
   \<and> str_lower ''AMBER'' \<notin> set Ligand_SUPPORTED_FORCEFIELDS
   \<and> mol2_path example_ligand = None
   \<and> mol2_path (fst (snd (Ligand_prepare example_env example_ligand (Some ''AMBER'')
                              True True True True world_with_inputs)))
       = Some [''pkg'', ''temp'', ''lig.mol2'']
   \<and> str_lower [] \<notin> set Ligand_SUPPORTED_FORCEFIELDS
   \<and> fst (Ligand_prepare example_env example_ligand (Some []) True True True True
            world_with_inputs) = Inr ()"
  by (simp add: Ligand_prepare_def Ligand_init_def Ligand_SUPPORTED_INPUTS_def lstrip_chars_def
      example_ligand_def example_env_def quiet_process_def world_with_inputs_def
      Ligand_SUPPORTED_FORCEFIELDS_def path_eval text_eval char_eval world_eval Let_def)

text \<open>
  Claim C6, amended. For every non-empty \<^verbatim>\<open>minimize\<close> whose lower-cased value is not in the
  allow-list, \<^verbatim>\<open>prepare\<close> raises \<^verbatim>\<open>ValueError\<close> before any subprocess is invoked: no file is
  written and nothing is run. The object is unchanged except for \<^verbatim>\<open>mol2_path\<close>, which has been
  set to the path of the intermediate file.
\<close>

theorem C6_forcefield_rejection:
  "m \<noteq> [] \<and> str_lower m \<notin> set Ligand_SUPPORTED_FORCEFIELDS \<longrightarrow>
     Ligand_prepare e self (Some m) add_hydrogens remove_nphs remove_lps remove_waters w
       = (Inl (Exc ValueError (UnsupportedForcefield (str_lower m))),
          self\<lparr>mol2_path := Some (pkg_dir e @ [''temp'', path_stem (ligand_file_path self) @ ''.mol2''])\<rparr>,
          w)"
  by (simp add: Ligand_prepare_def Let_def)

theorem C6_forcefield_rejection_witness:
  "Ligand_prepare example_env example_ligand (Some ''AMBER'') True True True True world_with_inputs
     = (Inl (Exc ValueError (UnsupportedForcefield ''amber'')),
        example_ligand\<lparr>mol2_path := Some [''pkg'', ''temp'', ''lig.mol2'']\<rparr>,
        world_with_inputs)"
proof -
  have h: "''AMBER'' \<noteq> [] \<and> str_lower ''AMBER'' \<notin> set Ligand_SUPPORTED_FORCEFIELDS"
    by (simp add: Ligand_SUPPORTED_FORCEFIELDS_def text_eval char_eval)
  have l: "str_lower ''AMBER'' = ''amber''"
    by (simp add: text_eval char_eval)
  have p: "pkg_dir example_env @ [''temp'', path_stem (ligand_file_path example_ligand) @ ''.mol2'']
      = [''pkg'', ''temp'', ''lig.mol2'']"
    by (simp add: example_env_def example_ligand_def path_eval)
  from C6_forcefield_rejection [THEN mp, OF h, of example_env example_ligand True True True True
      world_with_inputs]
  show ?thesis by (simp only: l p)
qed

text \<open>
  Claim C7. \<^verbatim>\<open>Protein.prepare\<close> does the same with \<^verbatim>\<open>add_charges=True\<close> and with
  \<^verbatim>\<open>add_charges=False\<close>: the same result, the same object state, the same commands run and
  the same files written.
\<close>

theorem C7_add_charges_unused:
  "Protein_prepare e self pH add_hydrogens remove_water True w
     = Protein_prepare e self pH add_hydrogens remove_water False w"
  by (simp add: Protein_prepare_def)

theorem C7_add_charges_unused_witness:
  "Protein_prepare example_env example_protein (PyFloat (Finite (37 / 5))) True True True
      world_with_inputs
     = Protein_prepare example_env example_protein (PyFloat (Finite (37 / 5))) True True False
      world_with_inputs"
  by (rule C7_add_charges_unused)

section \<open>Saving results\<close>

lemma mkdir_parents_keep: "fs q \<noteq> None \<Longrightarrow> mkdir_parents fs p q = fs q"
  by (simp add: mkdir_parents_def)

lemma mkdir_parents_other: "\<not> prefix q p \<Longrightarrow> mkdir_parents fs p q = fs q"
  by (simp add: mkdir_parents_def)

lemma mkdir_parents_self: "\<not> regular_file fs p \<Longrightarrow> mkdir_parents fs p p = Some Dir"
  by (auto simp: mkdir_parents_def regular_file_def split: option.splits node.splits)

lemma not_prefix_snoc: "\<not> prefix (d @ [n]) d"
  by (auto simp: prefix_def)

lemma not_prefix_butlast: "p \<noteq> [] \<Longrightarrow> \<not> prefix p (butlast p)"
proof
  assume ne: "p \<noteq> []" and pre: "prefix p (butlast p)"
  from pre have "length p \<le> length (butlast p)" by (rule prefix_length_le)
  then have "length p \<le> length p - 1" by (simp only: length_butlast)
  moreover have "0 < length p" using ne by simp
  ultimately show False by arith
qed

lemma all_exist_result:
  "fst (all_exist ps w) = (\<forall>p\<in>set ps. files w p \<noteq> None)
   \<and> files (snd (all_exist ps w)) = files w"
  by (induction ps arbitrary: w) (simp_all add: path_exists_def log_event_def)

lemma shutil_copy_class:
  "fst (shutil_copy src dst w) \<noteq> Inl (Exc RuntimeError m)"
  by (simp add: shutil_copy_def Let_def split: option.splits node.splits)

lemma copy_each_class:
  "fst (copy_each fs d w) \<noteq> Inl (Exc RuntimeError m)"
proof (induction fs arbitrary: w)
  case Nil
  show ?case by simp
next
  case (Cons f fs)
  show ?case
  proof (cases "shutil_copy f (d @ [path_name f]) w")
    case (Pair r w1)
    then show ?thesis
      using shutil_copy_class [of f "d @ [path_name f]" w m] Cons.IH [of w1]
      by (cases r) simp_all
  qed
qed

lemma shutil_copy_file:
  assumes "files w src = Some (File bytes)" and "files w dst \<noteq> Some Dir" and "dst \<noteq> src"
    and "files w (butlast dst) = Some Dir"
  shows "fst (shutil_copy src dst w) = Inr ()"
    and "files (snd (shutil_copy src dst w)) = (files w)(dst \<mapsto> File bytes)"
  using assms by (simp_all add: shutil_copy_def Let_def log_event_def)

lemma copy_each_ok:
  assumes "files w d = Some Dir"
    and "\<forall>f\<in>set fs. regular_file (files w) f"
    and "distinct (map path_name fs)"
    and "\<forall>f\<in>set fs. files w (d @ [path_name f]) \<noteq> Some Dir"
    and "\<forall>f\<in>set fs. d @ [path_name f] \<notin> set fs"
  shows "fst (copy_each fs d w) = Inr ()
    \<and> (\<forall>f\<in>set fs. files (snd (copy_each fs d w)) (d @ [path_name f]) = files w f)
    \<and> (\<forall>q. q \<notin> (\<lambda>f. d @ [path_name f]) ` set fs \<longrightarrow> files (snd (copy_each fs d w)) q = files w q)"
  using assms
proof (induction fs arbitrary: w)
  case Nil
  show ?case by simp
next
  case (Cons f fs)
  let ?dst = "d @ [path_name f]"
  from Cons.prems(2) obtain bytes where src: "files w f = Some (File bytes)"
    by (auto simp: regular_file_def split: option.splits node.splits)
  have nd: "files w ?dst \<noteq> Some Dir" using Cons.prems(4) by simp
  have ne: "?dst \<noteq> f" using Cons.prems(5) by auto
  have par: "files w (butlast ?dst) = Some Dir" using Cons.prems(1) by simp
  obtain w1 where c: "shutil_copy f ?dst w = (Inr (), w1)"
    and w1: "files w1 = (files w)(?dst \<mapsto> File bytes)"
    using shutil_copy_file [OF src nd ne par] by (cases "shutil_copy f ?dst w") auto
  have d_ne: "d \<noteq> ?dst" by simp
  have a1: "files w1 d = Some Dir" using Cons.prems(1) w1 d_ne by simp
  have a2: "\<forall>g\<in>set fs. regular_file (files w1) g"
  proof
    fix g assume g: "g \<in> set fs"
    then have "g \<noteq> ?dst" using Cons.prems(5) by auto
    then show "regular_file (files w1) g" using Cons.prems(2) g w1 by (simp add: regular_file_def)
  qed
  have a3: "distinct (map path_name fs)" using Cons.prems(3) by simp
  have a4: "\<forall>g\<in>set fs. files w1 (d @ [path_name g]) \<noteq> Some Dir"
    using Cons.prems(4) w1 by simp
  have a5: "\<forall>g\<in>set fs. d @ [path_name g] \<notin> set fs" using Cons.prems(5) by simp
  note ih = Cons.IH [OF a1 a2 a3 a4 a5]
  have r: "copy_each (f # fs) d w = copy_each fs d w1" using c by simp
  have dst_fresh: "?dst \<notin> (\<lambda>g. d @ [path_name g]) ` set fs"
    using Cons.prems(3) by auto
  have p1: "fst (copy_each (f # fs) d w) = Inr ()" using ih r by simp
  have p2: "\<forall>g\<in>set (f # fs). files (snd (copy_each (f # fs) d w)) (d @ [path_name g]) = files w g"
  proof
    fix g assume g: "g \<in> set (f # fs)"
    show "files (snd (copy_each (f # fs) d w)) (d @ [path_name g]) = files w g"
    proof (cases "g = f")
      case True
      have "files (snd (copy_each fs d w1)) ?dst = files w1 ?dst"
        using ih dst_fresh by blast
      then show ?thesis using True r w1 src by simp
    next
      case False
      with g have gs: "g \<in> set fs" by simp
      then have "files (snd (copy_each fs d w1)) (d @ [path_name g]) = files w1 g"
        using ih by blast
      moreover have "g \<noteq> ?dst" using Cons.prems(5) gs by auto
      ultimately show ?thesis using r w1 by simp
    qed
  qed
  have p3: "\<forall>q. q \<notin> (\<lambda>g. d @ [path_name g]) ` set (f # fs)
      \<longrightarrow> files (snd (copy_each (f # fs) d w)) q = files w q"
  proof (intro allI impI)
    fix q assume q: "q \<notin> (\<lambda>g. d @ [path_name g]) ` set (f # fs)"
    then have "q \<notin> (\<lambda>g. d @ [path_name g]) ` set fs" and "q \<noteq> ?dst" by auto
    then show "files (snd (copy_each (f # fs) d w)) q = files w q"
      using ih r w1 by simp
  qed
  from p1 p2 p3 show ?case by blast
qed

lemma not_prefix_longer: "length p < length q \<Longrightarrow> \<not> prefix q p"
  using prefix_length_le [of q p] by auto

lemma Protein_init_unprepared:
  "fst (Protein_init p w) = Inr prot \<Longrightarrow> pdbqt_path prot = None"
  by (auto simp: Protein_init_def resolve_def is_file_def log_event_def Let_def
      split: option.splits node.splits if_splits)

lemma Protein_prepare_failed:
  "fst (Protein_prepare e prot pH ah rw ac w) \<noteq> Inr () \<Longrightarrow>
   pdbqt_path (fst (snd (Protein_prepare e prot pH ah rw ac w))) = pdbqt_path prot"
  by (auto simp: Protein_prepare_def Protein_to_pdb_def run_process_def Let_def
      split: if_splits sum.splits prod.splits)

lemma Protein_save_unprepared:
  "pdbqt_path prot = None \<Longrightarrow>
   Protein_save_pdbqt prot sp w = (Inl (Exc RuntimeError ProteinNotPrepared), w)"
  by (simp add: Protein_save_pdbqt_def)

lemma Protein_save_copies:
  assumes "pdbqt_path prot = Some pq" and "files w pq = Some (File bytes)" and "sp \<noteq> []"
    and "\<not> regular_file (files w) (path_parent sp)"
    and "dest = (if files w sp = Some Dir then sp @ [path_name pq] else sp)"
    and "dest \<noteq> pq" and "files w dest \<noteq> Some Dir"
  shows "fst (Protein_save_pdbqt prot sp w) = Inr ()
     \<and> files (snd (Protein_save_pdbqt prot sp w)) dest = Some (File bytes)"
proof -
  let ?w1 = "mkdir (butlast sp) (snd (resolve sp (snd (path_exists pq w))))"
  have fs1: "files ?w1 = mkdir_parents (files w) (butlast sp)"
    by (simp add: mkdir_def resolve_def path_exists_def log_event_def)
  have sp_same: "files ?w1 sp = files w sp"
    using not_prefix_butlast [OF assms(3)] by (simp add: fs1 mkdir_parents_other)
  have src: "files ?w1 pq = Some (File bytes)"
    using assms(2) by (simp add: fs1 mkdir_parents_keep)
  have par: "files ?w1 (butlast sp) = Some Dir"
    using assms(4) unfolding fs1 path_parent_def by (rule mkdir_parents_self)
  have run: "Protein_save_pdbqt prot sp w = shutil_copy pq sp ?w1"
    using assms(1,2) by (simp add: Protein_save_pdbqt_def path_exists_def resolve_def path_parent_def)
  show ?thesis
  proof (cases "files w sp = Some Dir")
    case True
    then have d: "dest = sp @ [path_name pq]" using assms(5) by simp
    have "files ?w1 dest = files w dest"
      unfolding d fs1
      by (rule mkdir_parents_other) (rule not_prefix_longer, simp)
    then have nd: "files ?w1 dest \<noteq> Some Dir" using assms(7) by simp
    from True sp_same src nd assms(6) d show ?thesis
      by (simp add: run shutil_copy_def Let_def log_event_def)
  next
    case False
    then have d: "dest = sp" using assms(5) by simp
    from False sp_same src par assms(6) d show ?thesis
      by (simp add: run shutil_copy_def Let_def log_event_def)
  qed
qed


lemma save_results_missing:
  "fst (VinaDocking_save_results vd sd w) = Inl (Exc RuntimeError DockingResultsMissing)
     \<longleftrightarrow> (\<exists>f\<in>set [output_pdbqt vd, output_log vd, output_csv vd]. files w f = None)"
proof -
  let ?outs = "[output_pdbqt vd, output_log vd, output_csv vd]"
  obtain ok w1 where a: "all_exist ?outs w = (ok, w1)" by (cases "all_exist ?outs w")
  have ok: "ok = (\<forall>p\<in>set ?outs. files w p \<noteq> None)"
    using all_exist_result [of ?outs w] a by simp
  show ?thesis
  proof (cases ok)
    case False
    then have "fst (VinaDocking_save_results vd sd w) = Inl (Exc RuntimeError DockingResultsMissing)"
      using a by (simp add: VinaDocking_save_results_def Let_def)
    with False ok show ?thesis by auto
  next
    case True
    then have eq: "VinaDocking_save_results vd sd w
        = copy_each ?outs sd (mkdir sd (snd (resolve sd w1)))"
      using a by (simp add: VinaDocking_save_results_def Let_def resolve_def)
    have "fst (VinaDocking_save_results vd sd w) \<noteq> Inl (Exc RuntimeError DockingResultsMissing)"
      unfolding eq by (rule copy_each_class)
    with True ok show ?thesis by auto
  qed
qed

lemma save_results_copies:
  assumes "outs = [output_pdbqt vd, output_log vd, output_csv vd]"
    and "\<forall>f\<in>set outs. regular_file (files w) f"
    and "distinct (map path_name outs)"
    and "\<not> regular_file (files w) sd"
    and "\<forall>f\<in>set outs. files w (sd @ [path_name f]) \<noteq> Some Dir \<and> sd @ [path_name f] \<notin> set outs"
  shows "fst (VinaDocking_save_results vd sd w) = Inr ()
     \<and> (\<forall>f\<in>set outs. files (snd (VinaDocking_save_results vd sd w)) (sd @ [path_name f]) = files w f)"
proof -
  obtain ok w1 where a: "all_exist outs w = (ok, w1)" by (cases "all_exist outs w")
  have ex: "\<forall>p\<in>set outs. files w p \<noteq> None"
    using assms(2) by (auto simp: regular_file_def split: option.splits)
  have ok: "ok" and f1: "files w1 = files w"
    using all_exist_result [of outs w] a ex by simp_all
  let ?w2 = "mkdir sd (snd (resolve sd w1))"
  have fs2: "files ?w2 = mkdir_parents (files w) sd"
    by (simp add: mkdir_def resolve_def log_event_def f1)
  have run: "VinaDocking_save_results vd sd w = copy_each outs sd ?w2"
    using a ok assms(1) by (simp add: VinaDocking_save_results_def Let_def resolve_def)
  have b1: "files ?w2 sd = Some Dir"
    unfolding fs2 using assms(4) by (rule mkdir_parents_self)
  have keep: "files ?w2 f = files w f" if "f \<in> set outs" for f
    using that ex by (simp add: fs2 mkdir_parents_keep)
  have b2: "\<forall>f\<in>set outs. regular_file (files ?w2) f"
    using assms(2) keep by (simp add: regular_file_def)
  have dst: "files ?w2 (sd @ [n]) = files w (sd @ [n])" for n
    unfolding fs2 by (rule mkdir_parents_other) (rule not_prefix_snoc)
  have b4: "\<forall>f\<in>set outs. files ?w2 (sd @ [path_name f]) \<noteq> Some Dir"
    using assms(5) dst by simp
  have b5: "\<forall>f\<in>set outs. sd @ [path_name f] \<notin> set outs"
    using assms(5) by simp
  from copy_each_ok [OF b1 b2 assms(3) b4 b5] keep
  show ?thesis by (simp add: run)
qed

lemma prefix_comparable:
  "prefix xs zs \<Longrightarrow> prefix ys zs \<Longrightarrow> prefix xs ys \<or> prefix ys xs"
  by (auto simp: prefix_def append_eq_append_conv2)

lemma save_report_missing:
  "files w (output_dir pf) \<noteq> Some Dir \<Longrightarrow>
   fst (PocketFinder_save_report pf sd w)
     = Inl (Exc RuntimeError (OutputFolderNotFound (output_dir pf)))"
  by (simp add: PocketFinder_save_report_def path_exists_def is_dir_def log_event_def)

lemma save_report_copies:
  assumes src: "files w (output_dir pf) = Some Dir"
    and t: "target = sd @ [path_name (output_dir pf)]"
    and n1: "\<not> prefix target (output_dir pf)" and n2: "\<not> prefix (output_dir pf) target"
    and nf: "\<not> regular_file (files w) target"
  shows "fst (PocketFinder_save_report pf sd w) = Inr ()
     \<and> (\<forall>rel. files (snd (PocketFinder_save_report pf sd w)) (target @ rel)
                 = files w (output_dir pf @ rel))"
proof -
  let ?out = "output_dir pf"
  let ?fs4 = "mkdir_parents (files w) sd"
  have out_tree: "?fs4 (?out @ rel) = files w (?out @ rel)" for rel
  proof (rule mkdir_parents_other)
    show "\<not> prefix (?out @ rel) sd"
    proof
      assume "prefix (?out @ rel) sd"
      then have "prefix ?out sd" by (meson append_prefixD)
      then have "prefix ?out target" unfolding t by (rule prefix_prefix)
      with n2 show False by simp
    qed
  qed
  have out4: "?fs4 ?out = Some Dir" using out_tree [of "[]"] src by simp
  have tgt4: "?fs4 target = files w target"
    unfolding t by (rule mkdir_parents_other) (rule not_prefix_snoc)
  have not_under: "\<not> prefix target (?out @ rel)" for rel
  proof
    assume "prefix target (?out @ rel)"
    moreover have "prefix ?out (?out @ rel)" by simp
    ultimately have "prefix target ?out \<or> prefix ?out target" by (rule prefix_comparable)
    with n1 n2 show False by simp
  qed
  show ?thesis
  proof (cases "files w target")
    case None
    then show ?thesis
      using src out4 tgt4 n2 out_tree
      by (simp add: PocketFinder_save_report_def path_exists_def is_dir_def resolve_def mkdir_def
          log_event_def shutil_copytree_def Let_def t [symmetric])
  next
    case (Some nd)
    with nf have d: "files w target = Some Dir"
      by (cases nd) (simp_all add: regular_file_def)
    then show ?thesis
      using src out4 tgt4 n1 n2 out_tree not_under not_under [of "[]"]
      by (simp add: PocketFinder_save_report_def path_exists_def is_dir_def resolve_def mkdir_def
          log_event_def shutil_rmtree_def shutil_copytree_def Let_def t [symmetric])
  qed
qed


text \<open>
  Claim C3, as stated, fails. \<^verbatim>\<open>PocketFinder.__init__\<close> itself creates the output directory
  that \<^verbatim>\<open>save_report\<close> tests for, so \<^verbatim>\<open>save_report\<close> called straight after construction,
  with \<^verbatim>\<open>run()\<close> never called, raises nothing and copies the empty directory. And
  \<^verbatim>\<open>save_results\<close> tests for the three result files, not for a run of this object: when an
  earlier run has left them in the temporary directory, it copies them without \<^verbatim>\<open>run()\<close>.
\<close>

theorem C3_counterexample:
  "fst (PocketFinder_init example_env [''data'', ''1abc.pdb''] (PyInt 4) world_with_inputs)
     = Inr example_pocket_finder
   \<and> fst (PocketFinder_save_report example_pocket_finder [''saved'']
            (snd (PocketFinder_init example_env [''data'', ''1abc.pdb''] (PyInt 4) world_with_inputs)))
     = Inr ()
   \<and> fst (VinaDocking_init example_env [''data'', ''rec.pdbqt''] [''data'', ''lig.pdbqt'']
            (PyTuple [PyInt 1, PyInt 2, PyInt 3]) (PyTuple [PyInt 20, PyInt 20, PyInt 20])
            (PyInt 8) (PyInt 9) (PyInt 4) PyNone world_with_stale_results)
     = Inr example_docking
   \<and> fst (VinaDocking_save_results example_docking [''saved'']
            (snd (VinaDocking_init example_env [''data'', ''rec.pdbqt''] [''data'', ''lig.pdbqt'']
                    (PyTuple [PyInt 1, PyInt 2, PyInt 3]) (PyTuple [PyInt 20, PyInt 20, PyInt 20])
                    (PyInt 8) (PyInt 9) (PyInt 4) PyNone world_with_stale_results)))
     = Inr ()"
proof -
  have a: "fst (PocketFinder_init example_env [''data'', ''1abc.pdb''] (PyInt 4) world_with_inputs)
     = Inr example_pocket_finder"
    by (simp add: PocketFinder_init_def example_env_def example_pocket_finder_def
        world_with_inputs_def world_eval path_eval text_eval char_eval Let_def)
  have b: "fst (PocketFinder_save_report example_pocket_finder [''saved'']
            (snd (PocketFinder_init example_env [''data'', ''1abc.pdb''] (PyInt 4) world_with_inputs)))
     = Inr ()"
    by (simp add: PocketFinder_init_def PocketFinder_save_report_def example_env_def
        example_pocket_finder_def world_with_inputs_def world_eval path_eval text_eval char_eval
        shutil_copytree_def Let_def)
  have c: "fst (VinaDocking_init example_env [''data'', ''rec.pdbqt''] [''data'', ''lig.pdbqt'']
            (PyTuple [PyInt 1, PyInt 2, PyInt 3]) (PyTuple [PyInt 20, PyInt 20, PyInt 20])
            (PyInt 8) (PyInt 9) (PyInt 4) PyNone world_with_stale_results)
     = Inr example_docking"
    by (simp add: VinaDocking_init_def VinaDocking_validate_inputs_def is_3tuple_def
        tuple_items_def is_number_def example_env_def example_docking_def
        world_with_stale_results_def world_eval path_eval Let_def)
  have d: "fst (VinaDocking_save_results example_docking [''saved'']
            (snd (VinaDocking_init example_env [''data'', ''rec.pdbqt''] [''data'', ''lig.pdbqt'']
                    (PyTuple [PyInt 1, PyInt 2, PyInt 3]) (PyTuple [PyInt 20, PyInt 20, PyInt 20])
                    (PyInt 8) (PyInt 9) (PyInt 4) PyNone world_with_stale_results)))
     = Inr ()"
    by (simp add: VinaDocking_init_def VinaDocking_validate_inputs_def is_3tuple_def
        tuple_items_def is_number_def example_env_def example_docking_def
        VinaDocking_save_results_def shutil_copy_def
        world_with_stale_results_def world_eval path_eval Let_def)
  from a b c d show ?thesis by (intro conjI)
qed

text \<open>
  Claim C3, amended. A freshly constructed \<^verbatim>\<open>Protein\<close> has no \<^verbatim>\<open>pdbqt_path\<close>, a \<^verbatim>\<open>prepare\<close>
  that fails leaves the field as it was, and \<^verbatim>\<open>save_pdbqt\<close> raises \<^verbatim>\<open>RuntimeError\<close> while the
  field is unset; otherwise it copies the prepared file, byte for byte, to the destination.
  \<^verbatim>\<open>save_results\<close> raises \<^verbatim>\<open>RuntimeError\<close> exactly when one of the three result files is absent
  from the temporary directory; when all three are regular files it copies each, byte for
  byte, into the destination directory. \<^verbatim>\<open>save_report\<close> raises \<^verbatim>\<open>RuntimeError\<close> when the
  output directory is missing or is not a directory; otherwise the target directory holds
  exactly the content of the output directory. The copies are stated for destinations that
  differ from the sources and are not occupied by a node of the wrong kind.
\<close>

theorem C3_save_preconditions:
  "(fst (Protein_init p v) = Inr prot \<longrightarrow> pdbqt_path prot = None)
   \<and> (fst (Protein_prepare e prot pH ah rw ac w) \<noteq> Inr () \<longrightarrow>
        pdbqt_path (fst (snd (Protein_prepare e prot pH ah rw ac w))) = pdbqt_path prot)
   \<and> (pdbqt_path prot = None \<longrightarrow>
        Protein_save_pdbqt prot sp w = (Inl (Exc RuntimeError ProteinNotPrepared), w))
   \<and> (pdbqt_path prot = Some pq \<and> files w pq = Some (File bytes) \<and> sp \<noteq> []
        \<and> \<not> regular_file (files w) (path_parent sp)
        \<and> dest = (if files w sp = Some Dir then sp @ [path_name pq] else sp)
        \<and> dest \<noteq> pq \<and> files w dest \<noteq> Some Dir \<longrightarrow>
        fst (Protein_save_pdbqt prot sp w) = Inr ()
        \<and> files (snd (Protein_save_pdbqt prot sp w)) dest = Some (File bytes))
   \<and> (fst (VinaDocking_save_results vd sd w) = Inl (Exc RuntimeError DockingResultsMissing)
        \<longleftrightarrow> (\<exists>f\<in>set [output_pdbqt vd, output_log vd, output_csv vd]. files w f = None))
   \<and> (outs = [output_pdbqt vd, output_log vd, output_csv vd]
        \<and> (\<forall>f\<in>set outs. regular_file (files w) f)
        \<and> distinct (map path_name outs)
        \<and> \<not> regular_file (files w) sd
        \<and> (\<forall>f\<in>set outs. files w (sd @ [path_name f]) \<noteq> Some Dir
                           \<and> sd @ [path_name f] \<notin> set outs) \<longrightarrow>
        fst (VinaDocking_save_results vd sd w) = Inr ()
        \<and> (\<forall>f\<in>set outs. files (snd (VinaDocking_save_results vd sd w)) (sd @ [path_name f])
                            = files w f))
   \<and> (files w (output_dir pf) \<noteq> Some Dir \<longrightarrow>
        fst (PocketFinder_save_report pf sd w)
          = Inl (Exc RuntimeError (OutputFolderNotFound (output_dir pf))))
   \<and> (files w (output_dir pf) = Some Dir
        \<and> target = sd @ [path_name (output_dir pf)]
        \<and> \<not> prefix target (output_dir pf) \<and> \<not> prefix (output_dir pf) target
        \<and> \<not> regular_file (files w) target \<longrightarrow>
        fst (PocketFinder_save_report pf sd w) = Inr ()
        \<and> (\<forall>rel. files (snd (PocketFinder_save_report pf sd w)) (target @ rel)
                    = files w (output_dir pf @ rel)))"
proof (intro conjI impI)
  assume "fst (Protein_init p v) = Inr prot"
  then show "pdbqt_path prot = None" by (rule Protein_init_unprepared)
next
  assume "fst (Protein_prepare e prot pH ah rw ac w) \<noteq> Inr ()"
  then show "pdbqt_path (fst (snd (Protein_prepare e prot pH ah rw ac w))) = pdbqt_path prot"
    by (rule Protein_prepare_failed)
next
  assume "pdbqt_path prot = None"
  then show "Protein_save_pdbqt prot sp w = (Inl (Exc RuntimeError ProteinNotPrepared), w)"
    by (rule Protein_save_unprepared)
next
  assume a: "pdbqt_path prot = Some pq \<and> files w pq = Some (File bytes) \<and> sp \<noteq> []
        \<and> \<not> regular_file (files w) (path_parent sp)
        \<and> dest = (if files w sp = Some Dir then sp @ [path_name pq] else sp)
        \<and> dest \<noteq> pq \<and> files w dest \<noteq> Some Dir"
  then have r: "fst (Protein_save_pdbqt prot sp w) = Inr ()
      \<and> files (snd (Protein_save_pdbqt prot sp w)) dest = Some (File bytes)"
    by (intro Protein_save_copies) blast+
  from r show "fst (Protein_save_pdbqt prot sp w) = Inr ()" ..
  from r show "files (snd (Protein_save_pdbqt prot sp w)) dest = Some (File bytes)" ..
next
  show "fst (VinaDocking_save_results vd sd w) = Inl (Exc RuntimeError DockingResultsMissing)
        \<longleftrightarrow> (\<exists>f\<in>set [output_pdbqt vd, output_log vd, output_csv vd]. files w f = None)"
    by (rule save_results_missing)
next
  assume a: "outs = [output_pdbqt vd, output_log vd, output_csv vd]
        \<and> (\<forall>f\<in>set outs. regular_file (files w) f)
        \<and> distinct (map path_name outs)
        \<and> \<not> regular_file (files w) sd
        \<and> (\<forall>f\<in>set outs. files w (sd @ [path_name f]) \<noteq> Some Dir
                           \<and> sd @ [path_name f] \<notin> set outs)"
  then have r: "fst (VinaDocking_save_results vd sd w) = Inr ()
     \<and> (\<forall>f\<in>set outs. files (snd (VinaDocking_save_results vd sd w)) (sd @ [path_name f]) = files w f)"
    by (intro save_results_copies) blast+
  from r show "fst (VinaDocking_save_results vd sd w) = Inr ()" ..
  from r show "\<forall>f\<in>set outs. files (snd (VinaDocking_save_results vd sd w)) (sd @ [path_name f])
                            = files w f" ..
next
  assume "files w (output_dir pf) \<noteq> Some Dir"
  then show "fst (PocketFinder_save_report pf sd w)
          = Inl (Exc RuntimeError (OutputFolderNotFound (output_dir pf)))"
    by (rule save_report_missing)
next
  assume a: "files w (output_dir pf) = Some Dir
        \<and> target = sd @ [path_name (output_dir pf)]
        \<and> \<not> prefix target (output_dir pf) \<and> \<not> prefix (output_dir pf) target
        \<and> \<not> regular_file (files w) target"
  then have r: "fst (PocketFinder_save_report pf sd w) = Inr ()
     \<and> (\<forall>rel. files (snd (PocketFinder_save_report pf sd w)) (target @ rel)
                 = files w (output_dir pf @ rel))"
    by (intro save_report_copies) blast+
  from r show "fst (PocketFinder_save_report pf sd w) = Inr ()" ..
  from r show "\<forall>rel. files (snd (PocketFinder_save_report pf sd w)) (target @ rel)
                    = files w (output_dir pf @ rel)" ..
qed

theorem C3_save_preconditions_witness:
  "pdbqt_path example_protein = None
   \<and> pdbqt_path (fst (snd (Protein_prepare (example_env\<lparr>subprocess_run := failing_process\<rparr>)
           example_protein (PyFloat (Finite (37 / 5))) True True True world_with_inputs)))
       = pdbqt_path example_protein
   \<and> Protein_save_pdbqt example_protein [''saved''] world_with_prepared
       = (Inl (Exc RuntimeError ProteinNotPrepared), world_with_prepared)
   \<and> (fst (Protein_save_pdbqt example_prepared_protein [''saved''] world_with_prepared) = Inr ()
       \<and> files (snd (Protein_save_pdbqt example_prepared_protein [''saved''] world_with_prepared))
            [''saved'', ''1abc.pdbqt''] = Some (File ''ATOM charges''))
   \<and> fst (VinaDocking_save_results example_docking [''saved''] world_with_inputs)
       = Inl (Exc RuntimeError DockingResultsMissing)
   \<and> (fst (VinaDocking_save_results example_docking [''saved''] world_with_stale_results) = Inr ()
       \<and> files (snd (VinaDocking_save_results example_docking [''saved''] world_with_stale_results))
            [''saved'', ''rec_lig_docked.log''] = Some (File ''old log''))
   \<and> fst (PocketFinder_save_report example_pocket_finder [''saved''] world_with_inputs)
       = Inl (Exc RuntimeError (OutputFolderNotFound (output_dir example_pocket_finder)))
   \<and> (fst (PocketFinder_save_report example_pocket_finder [''saved''] world_with_report) = Inr ()
       \<and> files (snd (PocketFinder_save_report example_pocket_finder [''saved''] world_with_report))
            [''saved'', ''1abc'', ''1abc.pdb_predictions.csv''] = Some (File ''name,rank'')
       \<and> files (snd (PocketFinder_save_report example_pocket_finder [''saved''] world_with_report))
            [''saved'', ''1abc'', ''stale.txt''] = None)"
proof -
  let ?fail = "example_env\<lparr>subprocess_run := failing_process\<rparr>"
  let ?ph = "PyFloat (Finite (37 / 5))"
  let ?pq = "[''pkg'', ''temp'', ''1abc.pdbqt'']"
  let ?outs = "[output_pdbqt example_docking, output_log example_docking, output_csv example_docking]"
  let ?out = "output_dir example_pocket_finder"
  have h1: "fst (Protein_init [''data'', ''1abc.pdb''] world_with_inputs) = Inr example_protein"
    by (simp add: Protein_init_def Protein_SUPPORTED_INPUTS_def example_protein_def
        world_with_inputs_def world_eval path_eval text_eval char_eval Let_def)
  have c1: "pdbqt_path example_protein = None"
    by (rule C3_save_preconditions [where p = "[''data'', ''1abc.pdb'']" and v = world_with_inputs
          and prot = example_protein, THEN conjunct1, THEN mp, OF h1])
  have h2: "fst (Protein_prepare ?fail example_protein ?ph True True True world_with_inputs) \<noteq> Inr ()"
    by (simp add: Protein_prepare_def Protein_to_pdb_def example_protein_def example_env_def
        failing_process_def world_eval Let_def)
  have c2: "pdbqt_path (fst (snd (Protein_prepare ?fail example_protein ?ph True True True
        world_with_inputs))) = pdbqt_path example_protein"
    by (rule C3_save_preconditions [where e = ?fail and prot = example_protein and pH = ?ph
          and ah = True and rw = True and ac = True and w = world_with_inputs,
          THEN conjunct2, THEN conjunct1, THEN mp, OF h2])
  have c3: "Protein_save_pdbqt example_protein [''saved''] world_with_prepared
       = (Inl (Exc RuntimeError ProteinNotPrepared), world_with_prepared)"
    by (rule C3_save_preconditions [where prot = example_protein and sp = "[''saved'']"
          and w = world_with_prepared,
          THEN conjunct2, THEN conjunct2, THEN conjunct1, THEN mp, OF c1])
  have h4: "pdbqt_path example_prepared_protein = Some ?pq
        \<and> files world_with_prepared ?pq = Some (File ''ATOM charges'') \<and> [''saved''] \<noteq> []
        \<and> \<not> regular_file (files world_with_prepared) (path_parent [''saved''])
        \<and> [''saved'', ''1abc.pdbqt'']
            = (if files world_with_prepared [''saved''] = Some Dir then [''saved''] @ [path_name ?pq]
               else [''saved''])
        \<and> [''saved'', ''1abc.pdbqt''] \<noteq> ?pq
        \<and> files world_with_prepared [''saved'', ''1abc.pdbqt''] \<noteq> Some Dir"
    by (simp add: example_prepared_protein_def world_with_prepared_def regular_file_def path_eval)
  have c4: "fst (Protein_save_pdbqt example_prepared_protein [''saved''] world_with_prepared) = Inr ()
       \<and> files (snd (Protein_save_pdbqt example_prepared_protein [''saved''] world_with_prepared))
            [''saved'', ''1abc.pdbqt''] = Some (File ''ATOM charges'')"
    by (rule C3_save_preconditions [where prot = example_prepared_protein and sp = "[''saved'']"
          and w = world_with_prepared and pq = ?pq and bytes = "''ATOM charges''"
          and dest = "[''saved'', ''1abc.pdbqt'']",
          THEN conjunct2, THEN conjunct2, THEN conjunct2, THEN conjunct1, THEN mp, OF h4])
  have h5: "\<exists>f\<in>set ?outs. files world_with_inputs f = None"
    by (simp add: example_docking_def world_with_inputs_def)
  have c5: "fst (VinaDocking_save_results example_docking [''saved''] world_with_inputs)
       = Inl (Exc RuntimeError DockingResultsMissing)"
    by (rule C3_save_preconditions [where vd = example_docking and sd = "[''saved'']"
          and w = world_with_inputs,
          THEN conjunct2, THEN conjunct2, THEN conjunct2, THEN conjunct2, THEN conjunct1,
          THEN iffD2, OF h5])
  have h6: "?outs = [output_pdbqt example_docking, output_log example_docking, output_csv example_docking]
        \<and> (\<forall>f\<in>set ?outs. regular_file (files world_with_stale_results) f)
        \<and> distinct (map path_name ?outs)
        \<and> \<not> regular_file (files world_with_stale_results) [''saved'']
        \<and> (\<forall>f\<in>set ?outs. files world_with_stale_results ([''saved''] @ [path_name f]) \<noteq> Some Dir
                           \<and> [''saved''] @ [path_name f] \<notin> set ?outs)"
    by (simp add: example_docking_def world_with_stale_results_def regular_file_def path_eval)
  note r6 = C3_save_preconditions [where vd = example_docking and sd = "[''saved'']"
          and w = world_with_stale_results and outs = ?outs,
          THEN conjunct2, THEN conjunct2, THEN conjunct2, THEN conjunct2, THEN conjunct2,
          THEN conjunct1, THEN mp, OF h6]
  have m6: "output_log example_docking \<in> set ?outs" by simp
  have c6: "fst (VinaDocking_save_results example_docking [''saved''] world_with_stale_results) = Inr ()
       \<and> files (snd (VinaDocking_save_results example_docking [''saved''] world_with_stale_results))
            [''saved'', ''rec_lig_docked.log''] = Some (File ''old log'')"
    using r6 [THEN conjunct1] r6 [THEN conjunct2, THEN bspec, OF m6]
    by (simp add: example_docking_def world_with_stale_results_def path_eval)
  have h7: "files world_with_inputs ?out \<noteq> Some Dir"
    by (simp add: example_pocket_finder_def world_with_inputs_def)
  have c7: "fst (PocketFinder_save_report example_pocket_finder [''saved''] world_with_inputs)
       = Inl (Exc RuntimeError (OutputFolderNotFound ?out))"
    by (rule C3_save_preconditions [where pf = example_pocket_finder and sd = "[''saved'']"
          and w = world_with_inputs,
          THEN conjunct2, THEN conjunct2, THEN conjunct2, THEN conjunct2, THEN conjunct2,
          THEN conjunct2, THEN conjunct1, THEN mp, OF h7])
  have h8: "files world_with_report ?out = Some Dir
        \<and> [''saved'', ''1abc''] = [''saved''] @ [path_name ?out]
        \<and> \<not> prefix [''saved'', ''1abc''] ?out \<and> \<not> prefix ?out [''saved'', ''1abc'']
        \<and> \<not> regular_file (files world_with_report) [''saved'', ''1abc'']"
    by (simp add: example_pocket_finder_def example_csv_path_def world_with_report_def
        regular_file_def path_eval)
  note r8 = C3_save_preconditions [where pf = example_pocket_finder and sd = "[''saved'']"
          and w = world_with_report and target = "[''saved'', ''1abc'']",
          THEN conjunct2, THEN conjunct2, THEN conjunct2, THEN conjunct2, THEN conjunct2,
          THEN conjunct2, THEN conjunct2, THEN mp, OF h8]
  have c8: "fst (PocketFinder_save_report example_pocket_finder [''saved''] world_with_report) = Inr ()
       \<and> files (snd (PocketFinder_save_report example_pocket_finder [''saved''] world_with_report))
            [''saved'', ''1abc'', ''1abc.pdb_predictions.csv''] = Some (File ''name,rank'')
       \<and> files (snd (PocketFinder_save_report example_pocket_finder [''saved''] world_with_report))
            [''saved'', ''1abc'', ''stale.txt''] = None"
    using r8 [THEN conjunct1]
      r8 [THEN conjunct2, THEN spec, of "[''1abc.pdb_predictions.csv'']"]
      r8 [THEN conjunct2, THEN spec, of "[''stale.txt'']"]
    by (simp add: example_pocket_finder_def example_csv_path_def world_with_report_def)
  show ?thesis
    by (simp only: c1 c2 c3 c4 c5 c6 c7 c8 simp_thms)
qed

text \<open>
  Claim C8 at the destination that is the parent of the output directory: the target is then
  the output directory itself, it exists, so it is removed; the copy that follows finds no
  source and raises \<^verbatim>\<open>FileNotFoundError\<close>. The report is lost instead of being replaced by a
  copy.
\<close>

theorem C8_same_directory:
  "fst (PocketFinder_init example_env [''data'', ''1abc.pdb''] (PyInt 4) world_with_inputs)
     = Inr example_pocket_finder
   \<and> files world_with_report (output_dir example_pocket_finder) = Some Dir
   \<and> files world_with_report example_csv_path = Some (File ''name,rank'')
   \<and> fst (PocketFinder_save_report example_pocket_finder [''pkg'', ''temp'', ''p2rank_results'']
            world_with_report)
     = Inl (Exc FileNotFoundError LibraryFailure)
   \<and> files (snd (PocketFinder_save_report example_pocket_finder
                    [''pkg'', ''temp'', ''p2rank_results''] world_with_report))
        (output_dir example_pocket_finder) = None
   \<and> files (snd (PocketFinder_save_report example_pocket_finder
                    [''pkg'', ''temp'', ''p2rank_results''] world_with_report))
        example_csv_path = None"
  by (simp add: PocketFinder_save_report_def PocketFinder_init_def example_env_def
      world_with_inputs_def text_eval char_eval example_pocket_finder_def example_csv_path_def
      world_with_report_def world_eval path_eval shutil_rmtree_def shutil_copytree_def Let_def)

text \<open>
  Claim C10, as stated, fails where an earlier run has left a log and a table in the
  temporary directory: the call writes neither, raises the error, and both old files are
  still on disk afterwards.
\<close>

theorem C10_counterexample:
  "fst (VinaDocking_init example_env [''data'', ''rec.pdbqt''] [''data'', ''lig.pdbqt'']
          (PyTuple [PyInt 1, PyInt 2, PyInt 3]) (PyTuple [PyInt 20, PyInt 20, PyInt 20])
          (PyInt 8) (PyInt 9) (PyInt 4) PyNone world_with_stale_results)
     = Inr example_docking
   \<and> fst (VinaDocking_run example_env example_docking world_with_stale_results)
     = Inl (Exc ValueError NoDockingResults)
   \<and> files (snd (snd (VinaDocking_run example_env example_docking world_with_stale_results)))
        (output_log example_docking) = Some (File ''old log'')
   \<and> files (snd (snd (VinaDocking_run example_env example_docking world_with_stale_results)))
        (output_csv example_docking) = Some (File ''old table'')"
  by (simp add: VinaDocking_run_def VinaDocking_command_def subscript3_def
      VinaDocking_init_def VinaDocking_validate_inputs_def is_3tuple_def tuple_items_def
      is_number_def path_eval
      VinaDocking_parse_output_def example_env_def example_docking_def quiet_process_def
      world_with_stale_results_def world_eval text_eval Let_def)

text \<open>
  Claim C10, amended. When the docking subprocess exits with status 0 and empty stdout, the
  call writes no log, raises the \<^verbatim>\<open>ValueError\<close> "no docking results" before the table is
  written, and leaves the files exactly as the subprocess left them: a log or table is on
  disk afterwards only if it was there before.
\<close>

theorem C10_empty_stdout:
  "VinaDocking_command e self = Inr cmd
   \<and> returncode (subprocess_run e cmd None (files w)) = 0
   \<and> stdout (subprocess_run e cmd None (files w)) = [] \<longrightarrow>
   VinaDocking_run e self w =
     (Inl (Exc ValueError NoDockingResults),
      self\<lparr>vina_output := Some []\<rparr>,
      w\<lparr>files := files_after (subprocess_run e cmd None (files w)),
        trace := trace w @ [Run cmd None]\<rparr>)"
  by (simp add: VinaDocking_run_def VinaDocking_parse_output_def run_process_def log_event_def
      str_splitlines_def Let_def)

theorem C10_empty_stdout_witness:
  "fst (VinaDocking_run example_env example_docking world_with_inputs)
     = Inl (Exc ValueError NoDockingResults)
   \<and> files (snd (snd (VinaDocking_run example_env example_docking world_with_inputs)))
        (output_log example_docking) = None
   \<and> files (snd (snd (VinaDocking_run example_env example_docking world_with_inputs)))
        (output_csv example_docking) = None"
proof -
  obtain cmd where c: "VinaDocking_command example_env example_docking = Inr cmd"
    by (simp add: VinaDocking_command_def subscript3_def example_docking_def)
  have r: "returncode (subprocess_run example_env cmd None (files world_with_inputs)) = 0
      \<and> stdout (subprocess_run example_env cmd None (files world_with_inputs)) = []"
    by (simp add: example_env_def quiet_process_def)
  have fa: "files_after (subprocess_run example_env cmd None (files world_with_inputs))
      = files world_with_inputs"
    by (simp add: example_env_def quiet_process_def)
  from C10_empty_stdout [THEN mp, OF conjI [OF c r]]
  have eq: "VinaDocking_run example_env example_docking world_with_inputs =
     (Inl (Exc ValueError NoDockingResults),
      example_docking\<lparr>vina_output := Some []\<rparr>,
      world_with_inputs\<lparr>files := files_after (subprocess_run example_env cmd None (files world_with_inputs)),
        trace := trace world_with_inputs @ [Run cmd None]\<rparr>)" .
  have lg: "files world_with_inputs (output_log example_docking) = None"
    and cs: "files world_with_inputs (output_csv example_docking) = None"
    by (simp_all add: world_with_inputs_def example_docking_def)
  show ?thesis
    unfolding eq by (simp add: fa lg cs)
qed

end
